theory Spec2Isabelle
  imports Main "HOL-Library.Sublist"
begin

section \<open>JavaScript values\<close>

text \<open>
  The credit ledger stores plain JavaScript values and combines them with \<open><\<close>,
  \<open>+\<close>, \<open>-\<close> and \<open>||\<close>. The values that can reach these operators are
  integer-valued numbers, \<open>NaN\<close>, strings, \<open>undefined\<close>, and the members every
  object literal inherits from \<open>Object.prototype\<close>: native functions and
  \<open>Object.prototype\<close> itself (through the \<open>__proto__\<close> accessor). Numbers are
  the integers; the ledger's numbers are sums and differences of a few costs and grants,
  far inside the range where a double is exact and prints in plain decimal.
\<close>

datatype jsval =
    JNum int
  | JNaN
  | JStr string
  | JUndefined
  | JNativeFn string
  | JObjectProto

fun nat_to_string :: "nat \<Rightarrow> string" where
  "nat_to_string n =
     (if n < 10 then [''0123456789'' ! n]
      else nat_to_string (n div 10) @ [''0123456789'' ! (n mod 10)])"

declare nat_to_string.simps [simp del]

definition int_to_string :: "int \<Rightarrow> string" where
  "int_to_string i =
     (if i < 0 then CHR ''-'' # nat_to_string (nat (- i)) else nat_to_string (nat i))"

text \<open>\<open>Function.prototype.toString\<close> of a native function, as V8 prints it.\<close>

definition native_source :: "string \<Rightarrow> string" where
  "native_source name = ''function '' @ name @ ''() { [native code] }''"

text \<open>\<open>ToPrimitive\<close>: an object is replaced by the string its \<open>toString\<close> gives.\<close>

fun to_primitive :: "jsval \<Rightarrow> jsval" where
  "to_primitive (JNativeFn name) = JStr (native_source name)"
| "to_primitive JObjectProto = JStr ''[object Object]''"
| "to_primitive v = v"

fun to_string :: "jsval \<Rightarrow> string" where
  "to_string (JNum i) = int_to_string i"
| "to_string JNaN = ''NaN''"
| "to_string (JStr s) = s"
| "to_string JUndefined = ''undefined''"
| "to_string (JNativeFn name) = native_source name"
| "to_string JObjectProto = ''[object Object]''"

definition is_digit :: "char \<Rightarrow> bool" where
  "is_digit c = (c \<in> set ''0123456789'')"

definition digit_value :: "char \<Rightarrow> nat" where
  "digit_value c = of_char c - 48"

definition digits_value :: "string \<Rightarrow> nat" where
  "digits_value s = foldl (\<lambda>acc c. 10 * acc + digit_value c) 0 s"

text \<open>
  A string is the list of the UTF-8 bytes of the JavaScript string. \<open>js_spaces\<close> are
  the characters that \<open>String.prototype.trim\<close> and \<open>StringToNumber\<close> strip
  (\<open>WhiteSpace\<close> and \<open>LineTerminator\<close>): tab, line feed, vertical tab, form feed,
  carriage return, space, U+00A0, U+1680, U+2000 to U+200A, U+2028, U+2029, U+202F,
  U+205F, U+3000 and U+FEFF.
\<close>

definition js_spaces :: "string list" where
  "js_spaces =
     [[CHR 0x09], [CHR 0x0A], [CHR 0x0B], [CHR 0x0C], [CHR 0x0D], [CHR 0x20],
      [CHR 0xC2, CHR 0xA0], [CHR 0xE1, CHR 0x9A, CHR 0x80],
      [CHR 0xE2, CHR 0x80, CHR 0x80], [CHR 0xE2, CHR 0x80, CHR 0x81],
      [CHR 0xE2, CHR 0x80, CHR 0x82], [CHR 0xE2, CHR 0x80, CHR 0x83],
      [CHR 0xE2, CHR 0x80, CHR 0x84], [CHR 0xE2, CHR 0x80, CHR 0x85],
      [CHR 0xE2, CHR 0x80, CHR 0x86], [CHR 0xE2, CHR 0x80, CHR 0x87],
      [CHR 0xE2, CHR 0x80, CHR 0x88], [CHR 0xE2, CHR 0x80, CHR 0x89],
      [CHR 0xE2, CHR 0x80, CHR 0x8A], [CHR 0xE2, CHR 0x80, CHR 0xA8],
      [CHR 0xE2, CHR 0x80, CHR 0xA9], [CHR 0xE2, CHR 0x80, CHR 0xAF],
      [CHR 0xE2, CHR 0x81, CHR 0x9F], [CHR 0xE3, CHR 0x80, CHR 0x80],
      [CHR 0xEF, CHR 0xBB, CHR 0xBF]]"

text \<open>\<open>trimStart spaces s\<close> drops the members of \<open>spaces\<close> that \<open>s\<close> begins with.\<close>

function trimStart :: "string list \<Rightarrow> string \<Rightarrow> string" where
  "trimStart spaces s =
     (case find (\<lambda>p. p \<noteq> [] \<and> prefix p s) spaces of
        None \<Rightarrow> s
      | Some p \<Rightarrow> trimStart spaces (drop (length p) s))"
  by pat_completeness auto

termination
proof (relation "measure (\<lambda>(spaces, s). length s)")
  show "wf (measure (\<lambda>(spaces, s). length s))" by simp
next
  fix spaces :: "string list" and s p :: string
  assume "find (\<lambda>p. p \<noteq> [] \<and> prefix p s) spaces = Some p"
  then have "p \<noteq> []" and "prefix p s"
    by (auto simp: find_Some_iff)
  then have "0 < length p" and "length p \<le> length s"
    by (auto dest: prefix_length_le)
  then have "length s - length p < length s"
    by arith
  then show "((spaces, drop (length p) s), (spaces, s)) \<in> measure (\<lambda>(spaces, s). length s)"
    by simp
qed

declare trimStart.simps [simp del]

definition trim :: "string \<Rightarrow> string" where
  "trim s = rev (trimStart (map rev js_spaces) (rev (trimStart js_spaces s)))"

text \<open>
  \<open>StringToNumber\<close> on the decimal integer literals (optional sign, surrounding white
  space, the empty string is 0). Every other string is mapped to \<open>NaN\<close>; that is
  JavaScript's answer for the strings the ledger can hold, which all contain the source
  text of a native function or \<open>[object Object]\<close>. Fractional, exponent, radix-prefixed
  and \<open>Infinity\<close> literals are not integer-valued numbers of this model and are never
  stored by the ledger.
\<close>

definition string_to_number :: "string \<Rightarrow> jsval" where
  "string_to_number s =
     (let t = trim s in
      if t = [] then JNum 0
      else if hd t = CHR ''-'' \<and> tl t \<noteq> [] \<and> list_all is_digit (tl t)
        then JNum (- int (digits_value (tl t)))
      else if hd t = CHR ''+'' \<and> tl t \<noteq> [] \<and> list_all is_digit (tl t)
        then JNum (int (digits_value (tl t)))
      else if list_all is_digit t then JNum (int (digits_value t))
      else JNaN)"

fun to_number :: "jsval \<Rightarrow> jsval" where
  "to_number (JNum i) = JNum i"
| "to_number JNaN = JNaN"
| "to_number (JStr s) = string_to_number s"
| "to_number JUndefined = JNaN"
| "to_number (JNativeFn name) = string_to_number (native_source name)"
| "to_number JObjectProto = string_to_number ''[object Object]''"

fun truthy :: "jsval \<Rightarrow> bool" where
  "truthy (JNum i) = (i \<noteq> 0)"
| "truthy JNaN = False"
| "truthy (JStr s) = (s \<noteq> [])"
| "truthy JUndefined = False"
| "truthy (JNativeFn name) = True"
| "truthy JObjectProto = True"

text \<open>\<open>a || b\<close>\<close>

definition js_or :: "jsval \<Rightarrow> jsval \<Rightarrow> jsval" where
  "js_or a b = (if truthy a then a else b)"

text \<open>Comparison of strings by code units, as \<open><\<close> does when both operands are strings.\<close>

fun str_less :: "string \<Rightarrow> string \<Rightarrow> bool" where
  "str_less [] [] = False"
| "str_less [] (y # ys) = True"
| "str_less (x # xs) [] = False"
| "str_less (x # xs) (y # ys) =
     ((of_char x :: nat) < of_char y \<or> (x = y \<and> str_less xs ys))"

text \<open>\<open>a < b\<close>: a comparison with \<open>NaN\<close> is false.\<close>

definition js_lt :: "jsval \<Rightarrow> jsval \<Rightarrow> bool" where
  "js_lt a b =
     (case (to_primitive a, to_primitive b) of
        (JStr s, JStr t) \<Rightarrow> str_less s t
      | (p, q) \<Rightarrow>
          (case (to_number p, to_number q) of
             (JNum x, JNum y) \<Rightarrow> x < y
           | _ \<Rightarrow> False))"

text \<open>\<open>a <= b\<close>: false as soon as one side is \<open>NaN\<close>.\<close>

definition js_le :: "jsval \<Rightarrow> jsval \<Rightarrow> bool" where
  "js_le a b =
     (case (to_primitive a, to_primitive b) of
        (JStr s, JStr t) \<Rightarrow> \<not> str_less t s
      | (p, q) \<Rightarrow>
          (case (to_number p, to_number q) of
             (JNum x, JNum y) \<Rightarrow> x \<le> y
           | _ \<Rightarrow> False))"

fun is_string :: "jsval \<Rightarrow> bool" where
  "is_string (JStr s) = True"
| "is_string v = False"

text \<open>\<open>a + b\<close>: concatenation as soon as one primitive operand is a string.\<close>

definition js_add :: "jsval \<Rightarrow> jsval \<Rightarrow> jsval" where
  "js_add a b =
     (let p = to_primitive a; q = to_primitive b in
      if is_string p \<or> is_string q then JStr (to_string p @ to_string q)
      else (case (to_number p, to_number q) of
              (JNum x, JNum y) \<Rightarrow> JNum (x + y)
            | _ \<Rightarrow> JNaN))"

text \<open>\<open>a - b\<close>\<close>

definition js_sub :: "jsval \<Rightarrow> jsval \<Rightarrow> jsval" where
  "js_sub a b =
     (case (to_number a, to_number b) of
        (JNum x, JNum y) \<Rightarrow> JNum (x - y)
      | _ \<Rightarrow> JNaN)"

text \<open>
  The string-keyed members of \<open>Object.prototype\<close>. An object literal answers a
  property read from its own members first and from these otherwise.
\<close>

definition object_prototype_get :: "string \<Rightarrow> jsval" where
  "object_prototype_get k =
     (if k = ''constructor'' then JNativeFn ''Object''
      else if k = ''__proto__'' then JObjectProto
      else if k \<in> set [''toString'', ''toLocaleString'', ''valueOf'', ''hasOwnProperty'',
                        ''isPrototypeOf'', ''propertyIsEnumerable'', ''__defineGetter__'',
                        ''__defineSetter__'', ''__lookupGetter__'', ''__lookupSetter__'']
        then JNativeFn k
      else JUndefined)"

definition get_property :: "(string \<times> jsval) list \<Rightarrow> string \<Rightarrow> jsval" where
  "get_property own k =
     (case map_of own k of Some v \<Rightarrow> v | None \<Rightarrow> object_prototype_get k)"

section \<open>Credit ledger (credit-system.js)\<close>

record token =
  tokenId :: string
  tier :: string
  credits :: jsval
  createdAt :: int
  expiresAt :: int
  paymentId :: string
  usedCredits :: jsval
  lastUsed :: "int option"

type_synonym token_table = "string \<rightharpoonup> token"

text \<open>\<open>this.credits\<close>: the cost of one scrape per tier.\<close>

definition credits_per_scrape :: "(string \<times> jsval) list" where
  "credits_per_scrape = [(''basic'', JNum 1), (''premium'', JNum 5), (''custom'', JNum 10)]"

definition creditAmounts :: "(string \<times> jsval) list" where
  "creditAmounts = [(''basic'', JNum 10), (''premium'', JNum 20), (''custom'', JNum 50)]"

definition getCreditsForTier :: "string \<Rightarrow> jsval" where
  "getCreditsForTier t = js_or (get_property creditAmounts t) (JNum 1)"

text \<open>\<open>this.credits[tier] || 1\<close>, used by consume and by the refund branches.\<close>

definition creditsNeededFor :: "string \<Rightarrow> jsval" where
  "creditsNeededFor t = js_or (get_property credits_per_scrape t) (JNum 1)"

record token_response =
  respAccessToken :: string
  respCredits :: jsval
  respTier :: string
  respExpiresAt :: int

text \<open>
  \<open>generateAccessToken\<close>. The 16 random bytes (\<open>rnd\<close>, hex encoded) and the clock
  (\<open>now\<close>, milliseconds) are inputs. The expiry is kept as milliseconds: the source
  stores the ISO string of that instant and parses it back before comparing.
\<close>

definition generateAccessToken ::
  "token_table \<Rightarrow> string \<Rightarrow> string \<Rightarrow> string \<Rightarrow> int \<Rightarrow> token_response \<times> token_table" where
  "generateAccessToken tokens rnd payTier payId now =
     (let tok = \<lparr> tokenId = rnd, tier = payTier, credits = getCreditsForTier payTier,
                   createdAt = now, expiresAt = now + 30 * 24 * 60 * 60 * 1000,
                   paymentId = payId, usedCredits = JNum 0, lastUsed = None \<rparr>
      in (\<lparr> respAccessToken = rnd, respCredits = credits tok, respTier = tier tok,
             respExpiresAt = expiresAt tok \<rparr>,
          tokens(rnd \<mapsto> tok)))"

datatype credit_check =
    CreditDenied string "jsval option" "jsval option"
  | CreditValid jsval string

definition validateAndConsumeCredit ::
  "token_table \<Rightarrow> string \<Rightarrow> string \<Rightarrow> int \<Rightarrow> credit_check \<times> token_table" where
  "validateAndConsumeCredit tokens tokenKey requestedTier now =
     (case tokens tokenKey of
        None \<Rightarrow> (CreditDenied ''Invalid access token'' None None, tokens)
      | Some tok \<Rightarrow>
          if now > expiresAt tok
          then (CreditDenied ''Access token expired'' None None, tokens(tokenKey := None))
          else
            let creditsNeeded = creditsNeededFor requestedTier;
                availableCredits = js_sub (credits tok) (usedCredits tok)
            in if js_lt availableCredits creditsNeeded
               then (CreditDenied ''Insufficient credits''
                       (Some availableCredits) (Some creditsNeeded), tokens)
               else
                 let tok' = tok\<lparr> usedCredits := js_add (usedCredits tok) creditsNeeded,
                                  lastUsed := Some now \<rparr>
                 in (CreditValid (js_sub (credits tok') (usedCredits tok')) (tier tok'),
                     tokens(tokenKey \<mapsto> tok')))"

text \<open>The bound \<open>0 <= usedCredits && usedCredits <= credits\<close>, as JavaScript evaluates it.\<close>

definition withinCreditBound :: "token \<Rightarrow> bool" where
  "withinCreditBound tok =
     (js_le (JNum 0) (usedCredits tok) \<and> js_le (usedCredits tok) (credits tok))"

fun creditGranted :: "credit_check \<Rightarrow> bool" where
  "creditGranted (CreditValid remaining tokenTier) = True"
| "creditGranted (CreditDenied err available needed) = False"

text \<open>
  The refund statement of both failure branches of \<open>POST /scrape\<close>:
  \<open>if (token) token.usedCredits -= creditManager.credits[tier] || 1\<close>.
\<close>

definition refundCredit :: "token_table \<Rightarrow> string \<Rightarrow> string \<Rightarrow> token_table" where
  "refundCredit tokens tokenKey requestedTier =
     (case tokens tokenKey of
        None \<Rightarrow> tokens
      | Some tok \<Rightarrow>
          tokens(tokenKey \<mapsto>
            tok\<lparr> usedCredits := js_sub (usedCredits tok) (creditsNeededFor requestedTier) \<rparr>))"

section \<open>String operations of the source\<close>

text \<open>
  \<open>toLowerCase\<close> maps the letters \<open>A\<close> to \<open>Z\<close> and the two characters outside
  ASCII whose lower case contains an ASCII letter: U+212A (Kelvin sign) becomes \<open>k\<close>
  and U+0130 becomes \<open>i\<close> followed by U+0307. Every other character outside ASCII is
  left as it is; its lower case is again outside ASCII, so the comparisons this program
  makes with its ASCII keywords, directives and host names come out as in JavaScript.
\<close>

definition lower_char :: "char \<Rightarrow> char" where
  "lower_char c =
     (if (65::nat) \<le> of_char c \<and> of_char c \<le> (90::nat)
      then char_of (of_char c + (32::nat)) else c)"

fun toLowerCase :: "string \<Rightarrow> string" where
  "toLowerCase (c1 # c2 # c3 # cs) =
     (if c1 = CHR 0xE2 \<and> c2 = CHR 0x84 \<and> c3 = CHR 0xAA
        then CHR ''k'' # toLowerCase cs
      else if c1 = CHR 0xC4 \<and> c2 = CHR 0xB0
        then CHR ''i'' # CHR 0xCC # CHR 0x87 # toLowerCase (c3 # cs)
      else lower_char c1 # toLowerCase (c2 # c3 # cs))"
| "toLowerCase [c1, c2] =
     (if c1 = CHR 0xC4 \<and> c2 = CHR 0xB0 then [CHR ''i'', CHR 0xCC, CHR 0x87]
      else [lower_char c1, lower_char c2])"
| "toLowerCase [c1] = [lower_char c1]"
| "toLowerCase [] = []"

declare toLowerCase.simps [simp del]

definition startsWith :: "string \<Rightarrow> string \<Rightarrow> bool" where
  "startsWith s p = prefix p s"

text \<open>\<open>s.includes(k)\<close>: some position of \<open>s\<close> starts with \<open>k\<close>.\<close>

fun str_includes :: "string \<Rightarrow> string \<Rightarrow> bool" where
  "str_includes [] k = (k = [])"
| "str_includes (c # cs) k = (prefix k (c # cs) \<or> str_includes cs k)"

text \<open>\<open>s.split(c)\<close> for a one-character separator: never empty, \<open>\<close> gives \<open>[]\<close>.\<close>

fun split_on :: "char \<Rightarrow> string \<Rightarrow> string list" where
  "split_on c [] = [[]]"
| "split_on c (x # xs) =
     (if x = c then [] # split_on c xs
      else (case split_on c xs of
              w # ws \<Rightarrow> (x # w) # ws
            | [] \<Rightarrow> [[x]]))"

text \<open>\<open>parts.join('.')\<close>\<close>

fun join_dot :: "string list \<Rightarrow> string" where
  "join_dot [] = []"
| "join_dot [w] = w"
| "join_dot (w # v # ws) = w @ CHR ''.'' # join_dot (v # ws)"

section \<open>Abuse protection (abuse-protection.js)\<close>

datatype severity = LOW | MEDIUM | HIGH

definition highSeverityKeywords :: "string list" where
  "highSeverityKeywords = [''blacklist'', ''ban'', ''illegal'', ''attack'', ''flood'']"

definition mediumSeverityKeywords :: "string list" where
  "mediumSeverityKeywords = [''rate limit'', ''suspicious'', ''failure'']"

definition calculateSeverity :: "string \<Rightarrow> severity" where
  "calculateSeverity reason =
     (let reasonLower = toLowerCase reason in
      if list_ex (\<lambda>keyword. str_includes reasonLower keyword) highSeverityKeywords then HIGH
      else if list_ex (\<lambda>keyword. str_includes reasonLower keyword) mediumSeverityKeywords
        then MEDIUM
      else LOW)"

record ip_data =
  requests :: "int list"
  failures :: "int list"

record domain_data =
  domainRequests :: "int list"

datatype report_metadata =
    NoMetadata
  | BlacklistAttempts string nat
  | ManualBan

text \<open>
  An abuse report as \<open>reportAbuse\<close> builds it; the random \<open>id\<close> suffix is left out.
\<close>

record abuse_report =
  reportTimestamp :: int
  reportIp :: string
  reportReason :: string
  reportMetadata :: report_metadata
  reportSeverity :: severity

record abuse_state =
  ipTracker :: "string \<rightharpoonup> ip_data"
  domainTracker :: "string \<rightharpoonup> domain_data"
  suspiciousIPs :: "string set"
  bannedIPs :: "string set"
  abuseReports :: "abuse_report list"

definition maxRequestsPerIP :: nat where "maxRequestsPerIP = 100"
definition maxRequestsPerDomain :: nat where "maxRequestsPerDomain = 60"
definition maxFailedAttempts :: nat where "maxFailedAttempts = 10"
definition maxBlacklistAttempts :: nat where "maxBlacklistAttempts = 3"
definition windowMs :: int where "windowMs = 60 * 60 * 1000"

definition initial_abuse_state :: abuse_state where
  "initial_abuse_state =
     \<lparr> ipTracker = Map.empty, domainTracker = Map.empty, suspiciousIPs = {},
       bannedIPs = {}, abuseReports = [] \<rparr>"

text \<open>
  \<open>reportAbuse\<close> appends to the report file and keeps its last 1000 entries. The file
  is the \<open>abuseReports\<close> component; the write is taken to succeed and to complete
  before the next operation.
\<close>

definition reportAbuse ::
  "abuse_state \<Rightarrow> string \<Rightarrow> string \<Rightarrow> report_metadata \<Rightarrow> int \<Rightarrow> abuse_state" where
  "reportAbuse st ip reason meta now =
     (let report = \<lparr> reportTimestamp = now, reportIp = ip, reportReason = reason,
                      reportMetadata = meta, reportSeverity = calculateSeverity reason \<rparr>;
          reports = abuseReports st @ [report]
      in st\<lparr> abuseReports :=
               (if length reports > 1000 then drop (length reports - 1000) reports
                else reports) \<rparr>)"

definition flagSuspiciousIP :: "abuse_state \<Rightarrow> string \<Rightarrow> string \<Rightarrow> int \<Rightarrow> abuse_state" where
  "flagSuspiciousIP st ip reason now =
     reportAbuse (st\<lparr> suspiciousIPs := insert ip (suspiciousIPs st) \<rparr>) ip reason NoMetadata now"

definition inWindow :: "int \<Rightarrow> int \<Rightarrow> bool" where
  "inWindow now time = (now - time < windowMs)"

text \<open>\<open>if (!this.ipTracker.has(ipKey)) this.ipTracker.set(ipKey, {requests: [], failures: []})\<close>\<close>

definition ensureIp :: "(string \<rightharpoonup> ip_data) \<Rightarrow> string \<Rightarrow> (string \<rightharpoonup> ip_data)" where
  "ensureIp tracker ipKey =
     (case tracker ipKey of
        None \<Rightarrow> tracker(ipKey \<mapsto> \<lparr> requests = [], failures = [] \<rparr>)
      | Some d \<Rightarrow> tracker)"

definition ensureDomain ::
  "(string \<rightharpoonup> domain_data) \<Rightarrow> string \<Rightarrow> (string \<rightharpoonup> domain_data)" where
  "ensureDomain tracker domainKey =
     (case tracker domainKey of
        None \<Rightarrow> tracker(domainKey \<mapsto> \<lparr> domainRequests = [] \<rparr>)
      | Some d \<Rightarrow> tracker)"

text \<open>The entry that \<open>tracker.get(key)\<close> returns once the key has been ensured.\<close>

definition ipEntry :: "(string \<rightharpoonup> ip_data) \<Rightarrow> string \<Rightarrow> ip_data" where
  "ipEntry tracker ipKey =
     (case tracker ipKey of Some d \<Rightarrow> d | None \<Rightarrow> \<lparr> requests = [], failures = [] \<rparr>)"

definition domainEntry :: "(string \<rightharpoonup> domain_data) \<Rightarrow> string \<Rightarrow> domain_data" where
  "domainEntry tracker domainKey =
     (case tracker domainKey of Some d \<Rightarrow> d | None \<Rightarrow> \<lparr> domainRequests = [] \<rparr>)"

datatype rate_result =
    RateDenied string "int option" bool
  | RateAllowed int

text \<open>A \<open>domain\<close> argument is used when it is neither \<open>null\<close> nor the empty string.\<close>

fun domainGiven :: "string option \<Rightarrow> bool" where
  "domainGiven None = False"
| "domainGiven (Some d) = (d \<noteq> [])"

text \<open>
  \<open>checkRateLimit\<close>. The third component of a denial is the \<open>banned\<close> flag, the second
  the reset time in milliseconds (the source renders it as an ISO string).
\<close>

definition checkRateLimit ::
  "abuse_state \<Rightarrow> string \<Rightarrow> string option \<Rightarrow> int \<Rightarrow> rate_result \<times> abuse_state" where
  "checkRateLimit st ip domain now =
     (let ipKey = ''ip_'' @ ip;
          tracker1 = ensureIp (ipTracker st) ipKey;
          ipData = \<lparr> requests = filter (inWindow now) (requests (ipEntry tracker1 ipKey)),
                      failures = filter (inWindow now) (failures (ipEntry tracker1 ipKey)) \<rparr>;
          st1 = st\<lparr> ipTracker := tracker1(ipKey \<mapsto> ipData) \<rparr>
      in if length (requests ipData) \<ge> maxRequestsPerIP
         then (RateDenied
                 (''Rate limit exceeded: '' @ nat_to_string (length (requests ipData)) @ ''/''
                    @ nat_to_string maxRequestsPerIP @ '' requests per hour'')
                 (Some (foldl min (hd (requests ipData)) (tl (requests ipData)) + windowMs))
                 False,
               flagSuspiciousIP st1 ip ''Rate limit exceeded'' now)
         else if length (failures ipData) \<ge> maxFailedAttempts
         then (RateDenied
                 (''Too many failed attempts: '' @ nat_to_string (length (failures ipData))
                    @ ''/'' @ nat_to_string maxFailedAttempts)
                 None True,
               st1\<lparr> bannedIPs := insert ip (bannedIPs st1) \<rparr>)
         else if domainGiven domain
         then
           (let domainKey = ''domain_'' @ the domain;
                dtracker1 = ensureDomain (domainTracker st1) domainKey;
                domainData = \<lparr> domainRequests =
                                 filter (inWindow now)
                                   (domainRequests (domainEntry dtracker1 domainKey)) \<rparr>;
                st2 = st1\<lparr> domainTracker := dtracker1(domainKey \<mapsto> domainData) \<rparr>
            in if length (domainRequests domainData) \<ge> maxRequestsPerDomain
               then (RateDenied
                       (''Domain rate limit exceeded: ''
                          @ nat_to_string (length (domainRequests domainData)) @ ''/''
                          @ nat_to_string maxRequestsPerDomain
                          @ '' requests per hour for '' @ the domain)
                       None False,
                     st2)
               else (RateAllowed (int maxRequestsPerIP - int (length (requests ipData))), st2))
         else (RateAllowed (int maxRequestsPerIP - int (length (requests ipData))), st1))"

definition recordRequest :: "abuse_state \<Rightarrow> string \<Rightarrow> string option \<Rightarrow> int \<Rightarrow> abuse_state" where
  "recordRequest st ip domain now =
     (let ipKey = ''ip_'' @ ip;
          tracker1 = ensureIp (ipTracker st) ipKey;
          d = ipEntry tracker1 ipKey;
          st1 = st\<lparr> ipTracker := tracker1(ipKey \<mapsto> d\<lparr> requests := requests d @ [now] \<rparr>) \<rparr>
      in if domainGiven domain
         then
           (let domainKey = ''domain_'' @ the domain;
                dtracker1 = ensureDomain (domainTracker st1) domainKey;
                dd = domainEntry dtracker1 domainKey
            in st1\<lparr> domainTracker :=
                      dtracker1(domainKey \<mapsto> dd\<lparr> domainRequests := domainRequests dd @ [now] \<rparr>) \<rparr>)
         else st1)"

definition recordFailure :: "abuse_state \<Rightarrow> string \<Rightarrow> string \<Rightarrow> int \<Rightarrow> abuse_state" where
  "recordFailure st ip reason now =
     (let ipKey = ''ip_'' @ ip;
          tracker1 = ensureIp (ipTracker st) ipKey;
          d = ipEntry tracker1 ipKey;
          d' = d\<lparr> failures := failures d @ [now] \<rparr>;
          st1 = st\<lparr> ipTracker := tracker1(ipKey \<mapsto> d') \<rparr>
      in if str_includes reason ''blacklist'' \<or> str_includes reason ''Blacklisted''
         then
           (let recent = filter (inWindow now) (failures d')
            in if length recent \<ge> maxBlacklistAttempts
               then reportAbuse (st1\<lparr> bannedIPs := insert ip (bannedIPs st1) \<rparr>) ip
                      ''Multiple blacklist bypass attempts''
                      (BlacklistAttempts reason (length recent)) now
               else st1)
         else st1)"

datatype ip_status = StatusBanned | StatusSuspicious | StatusClean

definition checkIPStatus :: "abuse_state \<Rightarrow> string \<Rightarrow> ip_status \<times> string" where
  "checkIPStatus st ip =
     (if ip \<in> bannedIPs st then (StatusBanned, ''IP banned due to abuse'')
      else if ip \<in> suspiciousIPs st
        then (StatusSuspicious, ''IP flagged for suspicious activity'')
      else (StatusClean, ''No issues detected''))"

text \<open>\<open>cleanOldEntries\<close>: prune every window, drop the keys whose windows are empty.\<close>

definition cleanOldEntries :: "abuse_state \<Rightarrow> int \<Rightarrow> abuse_state" where
  "cleanOldEntries st now =
     (let cutoff = now - windowMs
      in st\<lparr> ipTracker :=
               (\<lambda>key. case ipTracker st key of
                         None \<Rightarrow> None
                       | Some d \<Rightarrow>
                           (let d' = \<lparr> requests = filter (\<lambda>time. time > cutoff) (requests d),
                                       failures = filter (\<lambda>time. time > cutoff) (failures d) \<rparr>
                            in if requests d' = [] \<and> failures d' = [] then None else Some d')),
             domainTracker :=
               (\<lambda>key. case domainTracker st key of
                         None \<Rightarrow> None
                       | Some d \<Rightarrow>
                           (let d' = \<lparr> domainRequests =
                                         filter (\<lambda>time. time > cutoff) (domainRequests d) \<rparr>
                            in if domainRequests d' = [] then None else Some d')) \<rparr>)"

definition banIP :: "abuse_state \<Rightarrow> string \<Rightarrow> string \<Rightarrow> int \<Rightarrow> abuse_state" where
  "banIP st ip reason now =
     reportAbuse (st\<lparr> bannedIPs := insert ip (bannedIPs st) \<rparr>) ip
       (''Manual ban: '' @ reason) ManualBan now"

definition unbanIP :: "abuse_state \<Rightarrow> string \<Rightarrow> abuse_state" where
  "unbanIP st ip =
     st\<lparr> bannedIPs := bannedIPs st - {ip}, suspiciousIPs := suspiciousIPs st - {ip} \<rparr>"

section \<open>Blacklist manager (blacklist-manager.js)\<close>

text \<open>
  \<open>new URL(url)\<close> is the platform's parser. The model receives its answer: nothing
  when it throws, otherwise the protocol (with its colon, as in \<open>https:\<close>), the host
  name and the path of the parsed URL.
\<close>

record parsed_url =
  protocol :: string
  hostname :: string
  pathname :: string

definition staticBlacklist :: "string list" where
  "staticBlacklist =
     [''facebook.com'', ''www.facebook.com'', ''m.facebook.com'',
      ''instagram.com'', ''www.instagram.com'',
      ''twitter.com'', ''www.twitter.com'', ''x.com'',
      ''linkedin.com'', ''www.linkedin.com'',
      ''tiktok.com'', ''www.tiktok.com'',
      ''snapchat.com'', ''www.snapchat.com'',
      ''amazon.com'', ''www.amazon.com'', ''amazon.co.uk'',
      ''ebay.com'', ''www.ebay.com'',
      ''etsy.com'', ''www.etsy.com'',
      ''shopify.com'', ''www.shopify.com'',
      ''google.com'', ''www.google.com'',
      ''bing.com'', ''www.bing.com'',
      ''yahoo.com'', ''www.yahoo.com'',
      ''youtube.com'', ''www.youtube.com'',
      ''netflix.com'', ''www.netflix.com'',
      ''spotify.com'', ''www.spotify.com'',
      ''paypal.com'', ''www.paypal.com'',
      ''stripe.com'', ''www.stripe.com'',
      ''gov.uk'', ''gov.rs'', ''gov.us'',
      ''cloudflare.com'', ''recaptcha.com'']"

record robots_result =
  allowed :: bool
  robotsReason :: string

record robots_cache_entry =
  cachedResult :: robots_result
  cachedAt :: int

text \<open>
  The manager once \<open>loadBlacklist\<close> has run: \<open>domains\<close> holds the static list and the
  dynamic entries.
\<close>

record blacklist_state =
  domains :: "string set"
  robotsCache :: "string \<rightharpoonup> robots_cache_entry"

datatype blacklist_check =
    Blocked string "string option"
  | NotBlocked string

text \<open>
  The loop over \<open>i = 0 .. parts.length - 2\<close> of \<open>isBlacklisted\<close>: the first
  \<open>parts.slice(i).join('.')\<close> found in the set.
\<close>

definition parentMatch :: "string set \<Rightarrow> string list \<Rightarrow> string option" where
  "parentMatch ds parts =
     List.find (\<lambda>parentDomain. parentDomain \<in> ds)
       (map (\<lambda>i. join_dot (drop i parts)) [0 ..< length parts - 1])"

definition isBlacklisted :: "string set \<Rightarrow> parsed_url option \<Rightarrow> blacklist_check" where
  "isBlacklisted ds parsed =
     (case parsed of
        None \<Rightarrow> Blocked ''Invalid URL'' None
      | Some urlObj \<Rightarrow>
          (let domain = toLowerCase (hostname urlObj) in
           if domain \<in> ds then Blocked ''Domain in blacklist'' (Some domain)
           else (case parentMatch ds (split_on CHR ''.'' domain) of
                   Some parentDomain \<Rightarrow>
                     Blocked ''Parent domain in blacklist'' (Some parentDomain)
                 | None \<Rightarrow> NotBlocked ''Domain allowed'')))"

definition agentApplicable :: "string \<Rightarrow> bool" where
  "agentApplicable agent =
     (agent = ''*'' \<or> str_includes agent ''bot'' \<or> str_includes agent ''spider'')"

text \<open>\<open>line.split(':')[1].trim()\<close>; the line starts with a directive, so part 1 exists.\<close>

definition directiveValue :: "string \<Rightarrow> string" where
  "directiveValue line = trim (split_on CHR '':'' line ! 1)"

definition disallowBlocks :: "string \<Rightarrow> string \<Rightarrow> bool" where
  "disallowBlocks line path =
     (let disallowPath = directiveValue line in
      disallowPath = ''/'' \<or> (disallowPath \<noteq> [] \<and> startsWith path disallowPath))"

text \<open>
  The \<open>for\<close> loop of \<open>parseRobotsTxt\<close>; the result is \<open>blocked\<close>. \<open>currentUserAgent\<close>
  starts as \<open>null\<close>, which the loop only tests for truth.
\<close>

fun robotsLoop :: "bool \<Rightarrow> string \<Rightarrow> string list \<Rightarrow> bool" where
  "robotsLoop currentUserAgent path [] = False"
| "robotsLoop currentUserAgent path (line # rest) =
     (let current = (if startsWith line ''user-agent:''
                     then agentApplicable (directiveValue line)
                     else currentUserAgent)
      in if current \<and> startsWith line ''disallow:'' \<and> disallowBlocks line path
         then True
         else robotsLoop current path rest)"

definition robotsLines :: "string \<Rightarrow> string list" where
  "robotsLines content = map (\<lambda>line. toLowerCase (trim line)) (split_on (CHR 0x0A) content)"

definition parseRobotsTxt :: "string \<Rightarrow> string \<Rightarrow> robots_result" where
  "parseRobotsTxt content path =
     (let blocked = robotsLoop False path (robotsLines content)
      in \<lparr> allowed = \<not> blocked,
           robotsReason = (if blocked then ''Blocked by robots.txt''
                           else ''Allowed by robots.txt'') \<rparr>)"

text \<open>
  What the request for \<open>/robots.txt\<close> comes back with, when \<open>https.get\<close> accepts
  the URL.
\<close>

datatype robots_fetch =
    FetchResponse nat string
  | FetchError
  | FetchTimeout

text \<open>
  \<open>https.get\<close> throws for a URL whose protocol is not \<open>https:\<close>; this is the message
  of its error.
\<close>

definition invalidProtocolMessage :: "string \<Rightarrow> string" where
  "invalidProtocolMessage proto =
     ''Protocol '' @ [CHR 0x22] @ proto @ [CHR 0x22] @ '' not supported. Expected ''
       @ [CHR 0x22] @ ''https:'' @ [CHR 0x22]"

text \<open>
  \<open>checkRobotsTxt\<close>. The result is \<open>Inr\<close> of the value the returned promise resolves
  with and the manager's new state, or \<open>Inl\<close> of the error message when the promise
  rejects: the exception of \<open>https.get\<close> is raised inside the promise that the
  function returns without awaiting, so its own \<open>catch\<close> does not see it. A cached
  decision is answered before any request is made.
\<close>

definition checkRobotsTxt ::
  "blacklist_state \<Rightarrow> parsed_url option \<Rightarrow> robots_fetch \<Rightarrow> int
     \<Rightarrow> string + robots_result \<times> blacklist_state" where
  "checkRobotsTxt bm parsed fetched now =
     (case parsed of
        None \<Rightarrow> Inr (\<lparr> allowed = True, robotsReason = ''Invalid URL'' \<rparr>, bm)
      | Some urlObj \<Rightarrow>
          (let domain = toLowerCase (hostname urlObj);
               fresh = (case robotsCache bm domain of
                          None \<Rightarrow> None
                        | Some cached \<Rightarrow>
                            if now - cachedAt cached < 24 * 60 * 60 * 1000
                            then Some (cachedResult cached) else None)
           in case fresh of
                Some result \<Rightarrow> Inr (result, bm)
              | None \<Rightarrow>
                  if protocol urlObj \<noteq> ''https:''
                  then Inl (invalidProtocolMessage (protocol urlObj))
                  else
                  (case fetched of
                     FetchResponse statusCode content \<Rightarrow>
                       (let result =
                              (if statusCode \<noteq> 200
                               then \<lparr> allowed = True, robotsReason = ''No robots.txt found'' \<rparr>
                               else parseRobotsTxt content (pathname urlObj))
                        in Inr (result,
                                bm\<lparr> robotsCache := (robotsCache bm)(domain \<mapsto>
                                      \<lparr> cachedResult = result, cachedAt = now \<rparr>) \<rparr>))
                   | FetchError \<Rightarrow>
                       Inr (\<lparr> allowed = True, robotsReason = ''robots.txt check failed'' \<rparr>, bm)
                   | FetchTimeout \<Rightarrow>
                       Inr (\<lparr> allowed = True, robotsReason = ''robots.txt timeout'' \<rparr>, bm))))"

record url_validation =
  valid :: bool
  validationReason :: string

text \<open>\<open>validateUrl\<close>; it rejects (\<open>Inl\<close>) when \<open>checkRobotsTxt\<close> does.\<close>

definition validateUrl ::
  "blacklist_state \<Rightarrow> parsed_url option \<Rightarrow> robots_fetch \<Rightarrow> int
     \<Rightarrow> string + url_validation \<times> blacklist_state" where
  "validateUrl bm parsed fetched now =
     (case parsed of
        None \<Rightarrow> Inr (\<lparr> valid = False, validationReason = ''Invalid URL format'' \<rparr>, bm)
      | Some urlObj \<Rightarrow>
          (case isBlacklisted (domains bm) parsed of
             Blocked reason d \<Rightarrow>
               Inr (\<lparr> valid = False, validationReason = ''Blacklisted: '' @ reason \<rparr>, bm)
           | NotBlocked reason \<Rightarrow>
               (case checkRobotsTxt bm parsed fetched now of
                  Inl message \<Rightarrow> Inl message
                | Inr (robotsCheck, bm') \<Rightarrow>
                    if \<not> allowed robotsCheck
                    then Inr (\<lparr> valid = False, validationReason = robotsReason robotsCheck \<rparr>,
                              bm')
                    else Inr (\<lparr> valid = True, validationReason = ''URL validated'' \<rparr>, bm'))))"

section \<open>Request handlers (index.js)\<close>

text \<open>
  The handlers of \<open>index.js\<close> are modelled from the point where Express calls them,
  with the parsed JSON body and the caller's address. The middleware in front of every
  route (\<open>helmet\<close>, \<open>cors\<close>, \<open>express.json\<close>, the static files and the
  \<open>express-rate-limit\<close> limiter) belongs to the HTTP framework and is left out; rate
  admission below always means \<open>abuseProtection.checkRateLimit\<close>. The older
  stand-alone server kept in the repository, with a Stripe-paid \<open>POST /scrape\<close> of the
  shape of \<open>POST /scrape-legacy\<close>, is a separate program that \<open>index.js\<close> does not
  load; it is not modelled.
\<close>

definition RESTRICTED_DOMAINS :: "string list" where
  "RESTRICTED_DOMAINS =
     [''facebook.com'', ''instagram.com'', ''twitter.com'', ''linkedin.com'', ''google.com'',
      ''amazon.com'', ''youtube.com'', ''tiktok.com'', ''pinterest.com'', ''reddit.com'']"

definition isValidUrl :: "parsed_url option \<Rightarrow> bool" where
  "isValidUrl parsed =
     (case parsed of
        None \<Rightarrow> False
      | Some urlObj \<Rightarrow>
          (let domain = toLowerCase (hostname urlObj) in
           \<not> list_ex (\<lambda>restricted. str_includes domain restricted \<or> domain = restricted)
                RESTRICTED_DOMAINS))"

definition extractDomain :: "parsed_url option \<Rightarrow> string" where
  "extractDomain parsed =
     (case parsed of None \<Rightarrow> ''invalid-url'' | Some urlObj \<Rightarrow> toLowerCase (hostname urlObj))"

text \<open>
  \<open>validateUrlEnhanced\<close>: an exception of \<open>validateUrl\<close> is caught and becomes an
  invalid result; the manager's state is then as it was.
\<close>

definition validateUrlEnhanced ::
  "blacklist_state \<Rightarrow> parsed_url option \<Rightarrow> robots_fetch \<Rightarrow> int
     \<Rightarrow> url_validation \<times> blacklist_state" where
  "validateUrlEnhanced bm parsed fetched now =
     (case validateUrl bm parsed fetched now of
        Inl message \<Rightarrow>
          (\<lparr> valid = False, validationReason = ''Validation error: '' @ message \<rparr>, bm)
      | Inr result \<Rightarrow> result)"

text \<open>
  The body of a request: a field is absent or a string, and \<open>!field\<close> holds for an
  absent and for an empty one.
\<close>

record request =
  reqIp :: string
  reqUrl :: "string option"
  reqAccessToken :: "string option"
  reqPaymentId :: "string option"
  reqTier :: "string option"

text \<open>\<open>const { tier = 'basic' } = req.body\<close>\<close>

definition requestTier :: "request \<Rightarrow> string" where
  "requestTier req = (case reqTier req of None \<Rightarrow> ''basic'' | Some t \<Rightarrow> t)"

fun fieldText :: "string option \<Rightarrow> string" where
  "fieldText None = []"
| "fieldText (Some s) = s"

fun present :: "string option \<Rightarrow> bool" where
  "present None = False"
| "present (Some s) = (s \<noteq> [])"

text \<open>
  What an extraction does when it is called: \<open>enhancedScraper.scrapeEnhanced\<close> for
  \<open>POST /scrape\<close> and \<open>POST /test-scrape\<close>, \<open>scrapeWebsite\<close> for
  \<open>POST /scrape-legacy\<close>. Both launch the browser outside their \<open>try\<close>, so both
  can throw.
\<close>

datatype scrape_outcome =
    ScrapeSuccess
  | ScrapeFailure string
  | ScrapeThrown string

text \<open>
  Everything outside the process that one request meets: the URL parser, the answer to
  the robots.txt request, the two extraction engines, the clock when the request is
  admitted and the clock when extraction has ended. \<open>paymentVerified\<close> is the answer of
  \<open>verifyPayment\<close>, which returns what \<open>mockPayments.verifyPayment\<close> of
  \<open>./public/lemonsqueezy\<close> returns; that module is not among the sources. The answer
  is \<open>Some b\<close> when \<open>verifyPayment\<close> resolves to a value whose truth is \<open>b\<close> (it is
  \<open>false\<close> when the call throws), and \<open>None\<close> when the call returns a promise that
  rejects, which \<open>verifyPayment\<close> does not catch.
\<close>

record request_env =
  parseURL :: "string \<Rightarrow> parsed_url option"
  robotsFetched :: robots_fetch
  extraction :: scrape_outcome
  paymentVerified :: "bool option"
  legacyExtraction :: scrape_outcome
  admittedAt :: int
  settledAt :: int

text \<open>
  What a handler answers: the status code, the \<open>error\<close> field, the explanation the
  branch sends with it (the \<open>details\<close> field, or the \<open>reason\<close> field where a
  branch of \<open>POST /test-scrape\<close> names it so), the \<open>creditRefunded\<close> flag and the
  remaining credits of a success. The scraped data and the constant notices of the
  responses are left out.
\<close>

record response =
  status :: nat
  errorText :: "string option"
  details :: "string option"
  creditRefunded :: bool
  creditsRemaining :: "jsval option"

definition reply :: "nat \<Rightarrow> string \<Rightarrow> response" where
  "reply code err =
     \<lparr> status = code, errorText = Some err, details = None, creditRefunded = False,
       creditsRemaining = None \<rparr>"

record gateway_state =
  creditTokens :: token_table
  abuse :: abuse_state
  blacklist :: blacklist_state

datatype stage =
    FieldCheck
  | RestrictedDomainCheck
  | CreditConsume
  | PaymentCheck
  | Extraction
  | Refund
  | BanCheck
  | RateAdmission
  | UrlPresence
  | LegalityCheck

text \<open>
  A handler keeps a trail of the stages it has entered. \<open>staged s v trail\<close> is the
  value \<open>v\<close> of the call made at stage \<open>s\<close>, together with the trail extended by
  \<open>s\<close>: the trail is produced by the calls, in the order the handler makes them. It
  is an observation of the control flow, not data of the program.
\<close>

definition staged :: "stage \<Rightarrow> 'a \<Rightarrow> stage list \<Rightarrow> 'a \<times> stage list" where
  "staged s v trail = (v, trail @ [s])"

definition restrictedDetails :: string where
  "restrictedDetails =
     ''This domain is restricted due to Terms of Service or anti-scraping measures''"

text \<open>
  \<open>POST /scrape\<close>. Sending the response (\<open>res.json\<close>) is taken not to throw, so the
  \<open>catch\<close> branch is entered only when \<open>scrapeEnhanced\<close> throws.
\<close>

definition scrapeRoute ::
  "gateway_state \<Rightarrow> request_env \<Rightarrow> request \<Rightarrow> response \<times> gateway_state \<times> stage list" where
  "scrapeRoute gs env req =
     (let url = fieldText (reqUrl req);
          tokenKey = fieldText (reqAccessToken req);
          tierName = requestTier req
      in case staged FieldCheck (present (reqUrl req) \<and> present (reqAccessToken req)) [] of
           (fieldsGiven, t1) \<Rightarrow>
             if \<not> fieldsGiven
             then (reply 400 ''Missing required fields: url, accessToken'', gs, t1)
             else
               (case staged RestrictedDomainCheck (isValidUrl (parseURL env url)) t1 of
                  (urlAllowed, t2) \<Rightarrow>
                    if \<not> urlAllowed
                    then ((reply 400 ''Invalid URL or restricted domain'')
                             \<lparr> details := Some restrictedDetails \<rparr>, gs, t2)
                    else
                      (case staged CreditConsume
                              (validateAndConsumeCredit (creditTokens gs) tokenKey tierName
                                 (admittedAt env)) t2 of
                         ((CreditDenied err available needed, toks), t3) \<Rightarrow>
                           (reply 402 err, gs\<lparr> creditTokens := toks \<rparr>, t3)
                       | ((CreditValid remaining tokenTier, toks), t3) \<Rightarrow>
                           (case staged Extraction (extraction env) t3 of
                              (ScrapeSuccess, t4) \<Rightarrow>
                                (\<lparr> status = 200, errorText = None, details = None,
                                   creditRefunded = False,
                                   creditsRemaining = Some remaining \<rparr>,
                                 gs\<lparr> creditTokens := toks \<rparr>, t4)
                            | (ScrapeFailure err, t4) \<Rightarrow>
                                (case staged Refund (refundCredit toks tokenKey tierName) t4 of
                                   (refunded, t5) \<Rightarrow>
                                     (\<lparr> status = 500, errorText = Some ''Scraping failed'',
                                        details = Some err, creditRefunded = True,
                                        creditsRemaining = None \<rparr>,
                                      gs\<lparr> creditTokens := refunded \<rparr>, t5))
                            | (ScrapeThrown msg, t4) \<Rightarrow>
                                (case staged Refund (refundCredit toks tokenKey tierName) t4 of
                                   (refunded, t5) \<Rightarrow>
                                     (\<lparr> status = 500,
                                        errorText = Some ''Server error during scraping'',
                                        details = Some msg, creditRefunded = True,
                                        creditsRemaining = None \<rparr>,
                                      gs\<lparr> creditTokens := refunded \<rparr>, t5))))))"


text \<open>\<open>const domain = url ? extractDomain(url) : null\<close>\<close>

definition requestDomain :: "request_env \<Rightarrow> request \<Rightarrow> string option" where
  "requestDomain env req =
     (if present (reqUrl req)
      then Some (extractDomain (parseURL env (fieldText (reqUrl req)))) else None)"

text \<open>
  \<open>POST /test-scrape\<close>. \<open>logRequest\<close> only appends to the access log file and is
  left out.
\<close>

definition testScrapeRoute ::
  "gateway_state \<Rightarrow> request_env \<Rightarrow> request \<Rightarrow> response \<times> gateway_state \<times> stage list" where
  "testScrapeRoute gs env req =
     (let clientIP = reqIp req;
          url = fieldText (reqUrl req)
      in case staged BanCheck (checkIPStatus (abuse gs) clientIP) [] of
           (ipStatus, t1) \<Rightarrow>
             if fst ipStatus = StatusBanned
             then ((reply 403 ''Access denied'')\<lparr> details := Some (snd ipStatus) \<rparr>, gs, t1)
             else
               (let domain = requestDomain env req
                in case staged RateAdmission
                          (checkRateLimit (abuse gs) clientIP domain (admittedAt env)) t1 of
                     ((RateDenied reason resetTime banned, ab1), t2) \<Rightarrow>
                       ((reply 429 ''Rate limit exceeded'')\<lparr> details := Some reason \<rparr>,
                        gs\<lparr> abuse := recordFailure ab1 clientIP ''Rate limit exceeded''
                                         (admittedAt env) \<rparr>,
                        t2)
                   | ((RateAllowed remaining, ab1), t2) \<Rightarrow>
                       (case staged UrlPresence (present (reqUrl req)) t2 of
                          (urlGiven, t3) \<Rightarrow>
                            if \<not> urlGiven
                            then (reply 400 ''URL is required'',
                                  gs\<lparr> abuse := recordFailure ab1 clientIP ''Missing URL''
                                                   (admittedAt env) \<rparr>,
                                  t3)
                            else
                              (case staged LegalityCheck
                                      (validateUrlEnhanced (blacklist gs) (parseURL env url)
                                         (robotsFetched env) (admittedAt env)) t3 of
                                 ((validation, bm1), t4) \<Rightarrow>
                                   if \<not> valid validation
                                   then ((reply 400 ''URL validation failed'')
                                            \<lparr> details := Some (validationReason validation) \<rparr>,
                                         gs\<lparr> abuse := recordFailure ab1 clientIP
                                                          (validationReason validation)
                                                          (admittedAt env),
                                             blacklist := bm1 \<rparr>,
                                         t4)
                                   else
                                     (let ab2 = recordRequest ab1 clientIP domain
                                                  (admittedAt env)
                                      in case staged Extraction (extraction env) t4 of
                                           (ScrapeSuccess, t5) \<Rightarrow>
                                             (\<lparr> status = 200, errorText = None,
                                                details = None, creditRefunded = False,
                                                creditsRemaining = None \<rparr>,
                                              gs\<lparr> abuse := ab2, blacklist := bm1 \<rparr>, t5)
                                         | (ScrapeFailure err, t5) \<Rightarrow>
                                             ((reply 500 ''Scraping failed'')
                                                 \<lparr> details := Some err \<rparr>,
                                              gs\<lparr> abuse := recordFailure ab2 clientIP
                                                               ''Scraping failed''
                                                               (settledAt env),
                                                  blacklist := bm1 \<rparr>, t5)
                                         | (ScrapeThrown msg, t5) \<Rightarrow>
                                             ((reply 500 ''Internal server error'')
                                                 \<lparr> details := Some ''Please try again later'' \<rparr>,
                                              gs\<lparr> abuse := recordFailure ab2 clientIP
                                                               ''Server error''
                                                               (settledAt env),
                                                  blacklist := bm1 \<rparr>, t5))))))"

section \<open>Interleavings of ledger operations\<close>

text \<open>
  Between the consume and the refund of one \<open>POST /scrape\<close> request the handler awaits
  the extraction, and operations of other requests run. An event is one uninterrupted
  ledger operation. \<open>inFlight\<close> lists the requests whose consume succeeded and whose
  extraction has not ended (token and tier of each); a request ends with
  \<open>SettleSuccess\<close> or with \<open>RefundOnFailure\<close>, and only a request in flight can end.
  \<open>issuedIds\<close> are the token ids drawn so far: a new token takes an id that was
  not drawn before, which is what drawing 16 random bytes stands for.
\<close>

datatype ledger_event =
    Issue string string string int
  | ConsumeStart string string int
  | SettleSuccess string string
  | RefundOnFailure string string

record ledger_state =
  ledgerTokens :: token_table
  inFlight :: "(string \<times> string) list"
  issuedIds :: "string list"

definition initial_ledger :: ledger_state where
  "initial_ledger = \<lparr> ledgerTokens = Map.empty, inFlight = [], issuedIds = [] \<rparr>"

fun ledger_step :: "ledger_state \<Rightarrow> ledger_event \<Rightarrow> ledger_state option" where
  "ledger_step s (Issue rnd payTier payId now) =
     (if rnd \<in> set (issuedIds s) then None
      else Some (s\<lparr> ledgerTokens := snd (generateAccessToken (ledgerTokens s) rnd payTier payId now),
                    issuedIds := rnd # issuedIds s \<rparr>))"
| "ledger_step s (ConsumeStart tokenKey requestedTier now) =
     (case validateAndConsumeCredit (ledgerTokens s) tokenKey requestedTier now of
        (CreditDenied err available needed, toks) \<Rightarrow> Some (s\<lparr> ledgerTokens := toks \<rparr>)
      | (CreditValid remaining tokenTier, toks) \<Rightarrow>
          Some (s\<lparr> ledgerTokens := toks, inFlight := (tokenKey, requestedTier) # inFlight s \<rparr>))"
| "ledger_step s (SettleSuccess tokenKey requestedTier) =
     (if (tokenKey, requestedTier) \<in> set (inFlight s)
      then Some (s\<lparr> inFlight := remove1 (tokenKey, requestedTier) (inFlight s) \<rparr>)
      else None)"
| "ledger_step s (RefundOnFailure tokenKey requestedTier) =
     (if (tokenKey, requestedTier) \<in> set (inFlight s)
      then Some (s\<lparr> ledgerTokens := refundCredit (ledgerTokens s) tokenKey requestedTier,
                    inFlight := remove1 (tokenKey, requestedTier) (inFlight s) \<rparr>)
      else None)"

fun ledger_run :: "ledger_state \<Rightarrow> ledger_event list \<Rightarrow> ledger_state option" where
  "ledger_run s [] = Some s"
| "ledger_run s (e # es) =
     (case ledger_step s e of None \<Rightarrow> None | Some s' \<Rightarrow> ledger_run s' es)"

text \<open>
  A tier has a price when the lookup in the tier tables does not fall through to a member
  inherited from \<open>Object.prototype\<close>.
\<close>

definition pricedTier :: "string \<Rightarrow> bool" where
  "pricedTier t = (t \<in> set (map fst credits_per_scrape) \<or> object_prototype_get t = JUndefined)"

fun eventTier :: "ledger_event \<Rightarrow> string" where
  "eventTier (Issue rnd payTier payId now) = payTier"
| "eventTier (ConsumeStart tokenKey requestedTier now) = requestedTier"
| "eventTier (SettleSuccess tokenKey requestedTier) = requestedTier"
| "eventTier (RefundOnFailure tokenKey requestedTier) = requestedTier"

text \<open>Consecutive consumes of one token, with the tier and the clock of each.\<close>

fun consumeAll ::
  "token_table \<Rightarrow> string \<Rightarrow> (string \<times> int) list \<Rightarrow> credit_check list \<times> token_table" where
  "consumeAll tokens tokenKey [] = ([], tokens)"
| "consumeAll tokens tokenKey ((requestedTier, now) # rest) =
     (case validateAndConsumeCredit tokens tokenKey requestedTier now of
        (r, tokens') \<Rightarrow>
          (case consumeAll tokens' tokenKey rest of (rs, tokens'') \<Rightarrow> (r # rs, tokens'')))"

text \<open>
  The numeric price of a tier, the price of the requests in flight on one token, and the
  invariant of the interleavings: every token in the table has numeric fields, its
  \<open>usedCredits\<close> covers what its requests in flight have been charged and does not
  exceed its \<open>credits\<close>; tokens and requests in flight carry drawn ids, and the
  requests in flight have priced tiers.
\<close>

definition numCost :: "string \<Rightarrow> int" where
  "numCost t = (case creditsNeededFor t of JNum n \<Rightarrow> n | _ \<Rightarrow> 0)"

definition pendingCost :: "(string \<times> string) list \<Rightarrow> string \<Rightarrow> int" where
  "pendingCost fl k = sum_list (map (\<lambda>r. if fst r = k then numCost (snd r) else 0) fl)"

definition ledger_inv :: "ledger_state \<Rightarrow> bool" where
  "ledger_inv s =
     ((\<forall>k tok. ledgerTokens s k = Some tok \<longrightarrow>
         k \<in> set (issuedIds s) \<and>
         (\<exists>c u. credits tok = JNum c \<and> usedCredits tok = JNum u \<and>
                 pendingCost (inFlight s) k \<le> u \<and> u \<le> c)) \<and>
      (\<forall>r \<in> set (inFlight s). fst r \<in> set (issuedIds s) \<and> pricedTier (snd r)))"

section \<open>Sample requests\<close>

text \<open>
  A parser answer for three URLs, an environment, a gateway holding one fresh basic
  token \<open>ab\<close> and a given ban set, and a premium request from \<open>10.0.0.1\<close>.
\<close>

definition sample_parseURL :: "string \<Rightarrow> parsed_url option" where
  "sample_parseURL u =
     (if u = ''https://example.com/docs''
        then Some \<lparr> protocol = ''https:'', hostname = ''example.com'', pathname = ''/docs'' \<rparr>
      else if u = ''http://example.com/docs''
        then Some \<lparr> protocol = ''http:'', hostname = ''example.com'', pathname = ''/docs'' \<rparr>
      else if u = ''https://shop.amazon.com/deals''
        then Some \<lparr> protocol = ''https:'', hostname = ''shop.amazon.com'',
                    pathname = ''/deals'' \<rparr>
      else None)"

definition sample_env :: "scrape_outcome \<Rightarrow> request_env" where
  "sample_env outcome =
     \<lparr> parseURL = sample_parseURL, robotsFetched = FetchResponse 404 [],
       extraction = outcome, paymentVerified = Some True, legacyExtraction = outcome,
       admittedAt = 1000, settledAt = 2000 \<rparr>"

definition sample_gateway :: "string set \<Rightarrow> gateway_state" where
  "sample_gateway banned =
     \<lparr> creditTokens = snd (generateAccessToken Map.empty ''ab'' ''basic'' ''pay'' 0),
       abuse = initial_abuse_state\<lparr> bannedIPs := banned \<rparr>,
       blacklist = \<lparr> domains = set staticBlacklist, robotsCache = Map.empty \<rparr> \<rparr>"

definition sample_request :: "string \<Rightarrow> request" where
  "sample_request u =
     \<lparr> reqIp = ''10.0.0.1'', reqUrl = Some u, reqAccessToken = Some ''ab'',
       reqPaymentId = Some ''pay'', reqTier = Some ''premium'' \<rparr>"

section \<open>Sequences of abuse-protection operations\<close>

text \<open>
  The operations of \<open>AbuseProtectionSystem\<close> that change its state, as one datatype,
  so that properties can be stated over any sequence of calls. \<open>noTimestampAdded\<close>
  compares two states: no window of the second holds a timestamp that the same window
  of the first does not hold. \<open>clockUpTo\<close> bounds the clock an operation reads,
  \<open>recentFailures\<close> are the failures of a caller inside the window that ends at a
  given instant.
\<close>

datatype abuse_op =
    OpCheckRateLimit string "string option" int
  | OpRecordRequest string "string option" int
  | OpRecordFailure string string int
  | OpCleanOldEntries int
  | OpBanIP string string int
  | OpUnbanIP string

fun apply_op :: "abuse_state \<Rightarrow> abuse_op \<Rightarrow> abuse_state" where
  "apply_op st (OpCheckRateLimit ip domain now) = snd (checkRateLimit st ip domain now)"
| "apply_op st (OpRecordRequest ip domain now) = recordRequest st ip domain now"
| "apply_op st (OpRecordFailure ip reason now) = recordFailure st ip reason now"
| "apply_op st (OpCleanOldEntries now) = cleanOldEntries st now"
| "apply_op st (OpBanIP ip reason now) = banIP st ip reason now"
| "apply_op st (OpUnbanIP ip) = unbanIP st ip"

definition run_ops :: "abuse_state \<Rightarrow> abuse_op list \<Rightarrow> abuse_state" where
  "run_ops st ops = foldl apply_op st ops"

definition noTimestampAdded :: "abuse_state \<Rightarrow> abuse_state \<Rightarrow> bool" where
  "noTimestampAdded st st' =
     (\<forall>key. set (requests (ipEntry (ipTracker st') key))
               \<subseteq> set (requests (ipEntry (ipTracker st) key)) \<and>
            set (failures (ipEntry (ipTracker st') key))
               \<subseteq> set (failures (ipEntry (ipTracker st) key)) \<and>
            set (domainRequests (domainEntry (domainTracker st') key))
               \<subseteq> set (domainRequests (domainEntry (domainTracker st) key)))"

fun clockUpTo :: "int \<Rightarrow> abuse_op \<Rightarrow> bool" where
  "clockUpTo T (OpCheckRateLimit ip domain now) = (now \<le> T)"
| "clockUpTo T (OpRecordRequest ip domain now) = (now \<le> T)"
| "clockUpTo T (OpRecordFailure ip reason now) = (now \<le> T)"
| "clockUpTo T (OpCleanOldEntries now) = (now \<le> T)"
| "clockUpTo T (OpBanIP ip reason now) = (now \<le> T)"
| "clockUpTo T (OpUnbanIP ip) = True"

fun isUnbanOf :: "string \<Rightarrow> abuse_op \<Rightarrow> bool" where
  "isUnbanOf ip (OpUnbanIP ip') = (ip' = ip)"
| "isUnbanOf ip op = False"

definition recentFailures :: "abuse_state \<Rightarrow> string \<Rightarrow> int \<Rightarrow> int list" where
  "recentFailures st ip T = filter (inWindow T) (failures (ipEntry (ipTracker st) (''ip_'' @ ip)))"

text \<open>
  Sample states: a caller with ten failures in the window, a caller with a hundred
  requests in the window, and a caller whose three
  requests for blacklisted URLs were each admitted by the rate limiter and then failed
  the legality check.
\<close>

definition sample_failures_state :: abuse_state where
  "sample_failures_state =
     initial_abuse_state\<lparr> ipTracker :=
       [''ip_10.0.0.1'' \<mapsto> \<lparr> requests = [], failures = replicate 10 500 \<rparr>] \<rparr>"

definition sample_requests_state :: abuse_state where
  "sample_requests_state =
     initial_abuse_state\<lparr> ipTracker :=
       [''ip_10.0.0.3'' \<mapsto> \<lparr> requests = 400 # replicate 99 500, failures = [] \<rparr>] \<rparr>"

definition sample_blacklist_run :: abuse_state where
  "sample_blacklist_run =
     recordFailure
       (run_ops
          (recordFailure
             (run_ops (recordFailure initial_abuse_state ''10.0.0.1''
                         ''Blacklisted: Domain in blacklist'' 0)
                [OpCheckRateLimit ''10.0.0.1'' (Some ''www.facebook.com'') 1000])
             ''10.0.0.1'' ''Blacklisted: Domain in blacklist'' 1000)
          [OpCheckRateLimit ''10.0.0.1'' (Some ''www.facebook.com'') 2000])
       ''10.0.0.1'' ''Blacklisted: Parent domain in blacklist'' 2000"

section \<open>Reference descriptions of the legality checks\<close>

text \<open>
  The blacklist check as the specification words it: a host is blacklisted when it is
  in the set, or when some parent domain of it is. Following the specification's example
  (\<open>sub.a.b.com\<close> is checked against \<open>a.b.com\<close> and \<open>b.com\<close>), a parent domain of a
  host is what follows one of its dots and itself contains a dot.
\<close>

definition parentDomainOf :: "string \<Rightarrow> string \<Rightarrow> bool" where
  "parentDomainOf d host = (CHR ''.'' \<in> set d \<and> suffix (CHR ''.'' # d) host)"

definition blacklistedBySpec :: "string set \<Rightarrow> string \<Rightarrow> bool" where
  "blacklistedBySpec ds host = (host \<in> ds \<or> (\<exists>d \<in> ds. parentDomainOf d host))"

fun isBlocked :: "blacklist_check \<Rightarrow> bool" where
  "isBlocked (Blocked reason d) = True"
| "isBlocked (NotBlocked reason) = False"

text \<open>
  The value of \<open>currentUserAgent\<close> after the loop of \<open>parseRobotsTxt\<close> has read the
  given lines: the applicability of the last \<open>User-agent\<close> line among them.
\<close>

definition currentAgent :: "bool \<Rightarrow> string list \<Rightarrow> bool" where
  "currentAgent cur ls =
     foldl (\<lambda>c line. if startsWith line ''user-agent:''
                       then agentApplicable (directiveValue line) else c) cur ls"

definition sample_robots :: string where
  "sample_robots =
     ''User-agent: *'' @ [CHR 0x0A] @ ''Disallow: /a'' @ [CHR 0x0A] @
     ''User-agent: Googlebot'' @ [CHR 0x0A] @ ''Disallow: /b''"

definition sample_robots_first_block :: string where
  "sample_robots_first_block = ''User-agent: *'' @ [CHR 0x0A] @ ''Disallow: /a''"

section \<open>Arithmetic of the ledger on numbers\<close>

lemma js_sub_num [simp]: "js_sub (JNum a) (JNum b) = JNum (a - b)"
  by (simp add: js_sub_def)

lemma js_add_num [simp]: "js_add (JNum a) (JNum b) = JNum (a + b)"
  by (simp add: js_add_def)

lemma js_lt_num [simp]: "js_lt (JNum a) (JNum b) = (a < b)"
  by (simp add: js_lt_def)

lemma str_includes_sublist: "str_includes s k = sublist k s"
  by (induction s) (simp_all add: sublist_Cons_right)

section \<open>String operations outside ASCII\<close>

text \<open>
  A robots.txt line that begins with a byte order mark and ends with a no-break space is
  trimmed to its directive, and a reason spelled with the Kelvin sign is lower-cased to
  the keyword.
\<close>

lemma trim_unicode_example:
  "trim ([CHR 0xEF, CHR 0xBB, CHR 0xBF] @ ''User-agent: *'' @ [CHR 0xC2, CHR 0xA0])
     = ''User-agent: *''"
  by code_simp

lemma toLowerCase_kelvin_example:
  "toLowerCase (''Blac'' @ [CHR 0xE2, CHR 0x84, CHR 0xAA] @ ''list'') = ''blacklist'' \<and>
   calculateSeverity (''blac'' @ [CHR 0xE2, CHR 0x84, CHR 0xAA] @ ''list'') = HIGH"
  by code_simp

section \<open>Severity classification\<close>

text \<open>
  Claim C9, as stated: a reason containing none of \<open>blacklist\<close>, \<open>ban\<close>, \<open>attack\<close>,
  \<open>flood\<close> is never HIGH. The reason \<open>illegal\<close> contains none of them, nor any
  medium term, and \<open>calculateSeverity\<close> answers HIGH.
\<close>

theorem severity_illegal_counterexample:
  "calculateSeverity ''illegal'' = HIGH \<and>
   \<not> list_ex (str_includes (toLowerCase ''illegal''))
        [''blacklist'', ''ban'', ''attack'', ''flood'', ''rate limit'', ''suspicious'',
         ''failure'']"
  by code_simp

text \<open>
  Claim C9, amended: the severity of a reason is HIGH when the lower-cased reason
  contains one of \<open>blacklist\<close>, \<open>ban\<close>, \<open>illegal\<close>, \<open>attack\<close>, \<open>flood\<close>; otherwise
  MEDIUM when it contains one of \<open>rate limit\<close>, \<open>suspicious\<close>, \<open>failure\<close>; otherwise
  LOW. Containment is that of contiguous substrings (\<open>sublist\<close>).
\<close>

theorem severity_keywords:
  "calculateSeverity reason =
     (if \<exists>k \<in> set [''blacklist'', ''ban'', ''illegal'', ''attack'', ''flood''].
           sublist k (toLowerCase reason) then HIGH
      else if \<exists>k \<in> set [''rate limit'', ''suspicious'', ''failure''].
           sublist k (toLowerCase reason) then MEDIUM
      else LOW)"
  unfolding calculateSeverity_def highSeverityKeywords_def mediumSeverityKeywords_def
    Let_def list_ex_iff str_includes_sublist
  by (rule refl)

theorem severity_keywords_witness:
  "calculateSeverity ''Too many FAILURES'' = MEDIUM \<and>
   calculateSeverity ''Manual ban: spam'' = HIGH \<and>
   calculateSeverity ''Missing URL'' = LOW"
  using severity_keywords [of "''Too many FAILURES''"]
    severity_keywords [of "''Manual ban: spam''"]
    severity_keywords [of "''Missing URL''"]
  by code_simp

section \<open>Tiers outside the price list\<close>

lemma unlisted_tier_defaults:
  assumes "t \<notin> set (map fst credits_per_scrape)" and "object_prototype_get t = JUndefined"
  shows "getCreditsForTier t = JNum 1 \<and> creditsNeededFor t = JNum 1"
  using assms
  by (auto simp: getCreditsForTier_def creditsNeededFor_def get_property_def js_or_def
      creditAmounts_def credits_per_scrape_def split: option.splits)

text \<open>
  Claim C10 at the tier \<open>constructor\<close>: the lookup \<open>creditAmounts[tier] || 1\<close> finds
  the member inherited from \<open>Object.prototype\<close>, so the grant is that function and not
  1; \<open>this.credits[tier] || 1\<close> likewise, so a consume with this tier on a fresh basic
  token passes the balance check (a comparison with \<open>NaN\<close>), reports \<open>NaN\<close>
  remaining credits and leaves a string in \<open>usedCredits\<close>. From then on every balance
  check of the token compares with \<open>NaN\<close>: twelve basic consumes in a row succeed on
  the 10-credit token.
\<close>

theorem inherited_tier_name_evaluation:
  "getCreditsForTier ''constructor'' = JNativeFn ''Object'' \<and>
   creditsNeededFor ''constructor'' = JNativeFn ''Object'' \<and>
   fst (validateAndConsumeCredit
          (snd (generateAccessToken Map.empty ''ab'' ''basic'' ''pay'' 0))
          ''ab'' ''constructor'' 1) = CreditValid JNaN ''basic'' \<and>
   map_option usedCredits
     (snd (validateAndConsumeCredit
             (snd (generateAccessToken Map.empty ''ab'' ''basic'' ''pay'' 0))
             ''ab'' ''constructor'' 1) ''ab'')
     = Some (JStr ''0function Object() { [native code] }'') \<and>
   list_all creditGranted
     (fst (consumeAll
             (snd (validateAndConsumeCredit
                     (snd (generateAccessToken Map.empty ''ab'' ''basic'' ''pay'' 0))
                     ''ab'' ''constructor'' 1))
             ''ab'' (map (\<lambda>t. (''basic'', t)) [2, 3, 4, 5, 6, 7, 8, 9, 10, 11, 12, 13])))"
  by code_simp

section \<open>Consuming credits\<close>



lemma creditsNeededFor_priced:
  assumes "pricedTier t"
  shows "\<exists>n. creditsNeededFor t = JNum n \<and> 0 < n"
  using assms
  by (auto simp: pricedTier_def creditsNeededFor_def get_property_def credits_per_scrape_def
      js_or_def)

lemma getCreditsForTier_priced:
  assumes "pricedTier t"
  shows "\<exists>c. getCreditsForTier t = JNum c \<and> 0 < c"
  using assms
  by (auto simp: pricedTier_def getCreditsForTier_def get_property_def creditAmounts_def
      credits_per_scrape_def js_or_def)

lemma consume_unknown:
  "tokens k = None \<Longrightarrow>
   validateAndConsumeCredit tokens k rt now = (CreditDenied ''Invalid access token'' None None, tokens)"
  by (simp add: validateAndConsumeCredit_def)

lemma consume_expired:
  "tokens k = Some tok \<Longrightarrow> expiresAt tok < now \<Longrightarrow>
   validateAndConsumeCredit tokens k rt now =
     (CreditDenied ''Access token expired'' None None, tokens(k := None))"
  by (simp add: validateAndConsumeCredit_def)

lemma consume_insufficient:
  "tokens k = Some tok \<Longrightarrow> now \<le> expiresAt tok \<Longrightarrow> credits tok = JNum c \<Longrightarrow>
   usedCredits tok = JNum u \<Longrightarrow> creditsNeededFor rt = JNum n \<Longrightarrow> c - u < n \<Longrightarrow>
   validateAndConsumeCredit tokens k rt now =
     (CreditDenied ''Insufficient credits'' (Some (JNum (c - u))) (Some (JNum n)), tokens)"
  by (simp add: validateAndConsumeCredit_def Let_def)

lemma consume_valid:
  "tokens k = Some tok \<Longrightarrow> now \<le> expiresAt tok \<Longrightarrow> credits tok = JNum c \<Longrightarrow>
   usedCredits tok = JNum u \<Longrightarrow> creditsNeededFor rt = JNum n \<Longrightarrow> n \<le> c - u \<Longrightarrow>
   validateAndConsumeCredit tokens k rt now =
     (CreditValid (JNum (c - u - n)) (tier tok),
      tokens(k \<mapsto> tok\<lparr> usedCredits := JNum (u + n), lastUsed := Some now \<rparr>))"
  by (simp add: validateAndConsumeCredit_def Let_def algebra_simps)









section \<open>The credit bound under interleaving\<close>

lemma numCost_priced: "pricedTier t \<Longrightarrow> creditsNeededFor t = JNum (numCost t) \<and> 0 < numCost t"
  using creditsNeededFor_priced [of t] by (auto simp: numCost_def)

lemma pendingCost_Nil [simp]: "pendingCost [] k = 0"
  by (simp add: pendingCost_def)

lemma pendingCost_Cons [simp]:
  "pendingCost (r # fl) k = (if fst r = k then numCost (snd r) else 0) + pendingCost fl k"
  by (simp add: pendingCost_def)

lemma pendingCost_remove1:
  "r \<in> set fl \<Longrightarrow>
   pendingCost (remove1 r fl) k = pendingCost fl k - (if fst r = k then numCost (snd r) else 0)"
  by (induction fl) auto

lemma pendingCost_nonneg:
  "\<forall>r \<in> set fl. pricedTier (snd r) \<Longrightarrow> 0 \<le> pendingCost fl k"
proof (induction fl)
  case Nil
  then show ?case by simp
next
  case (Cons r fl)
  then have "0 < numCost (snd r)" using numCost_priced by simp
  with Cons show ?case by simp
qed

lemma pendingCost_other:
  "\<forall>r \<in> set fl. fst r \<noteq> k \<Longrightarrow> pendingCost fl k = 0"
  by (induction fl) auto

lemma ledger_inv_initial: "ledger_inv initial_ledger"
  by (simp add: ledger_inv_def initial_ledger_def)

lemma ledger_inv_issue:
  assumes inv: "ledger_inv s" and priced: "pricedTier payTier"
    and step: "ledger_step s (Issue rnd payTier payId now) = Some s'"
  shows "ledger_inv s'"
proof -
  from step have fresh: "rnd \<notin> set (issuedIds s)"
    by (simp split: if_splits)
  obtain c where c: "getCreditsForTier payTier = JNum c" "0 < c"
    using getCreditsForTier_priced [OF priced] by blast
  from step fresh have s': "s' = s\<lparr> ledgerTokens := snd (generateAccessToken (ledgerTokens s) rnd payTier payId now),
                    issuedIds := rnd # issuedIds s \<rparr>"
    by simp
  have nopending: "pendingCost (inFlight s) rnd = 0"
    using inv fresh by (intro pendingCost_other) (auto simp: ledger_inv_def)
  show ?thesis
    using inv c nopending
    unfolding s' ledger_inv_def generateAccessToken_def Let_def
    by (auto split: if_splits)
qed

lemma ledger_inv_consume:
  assumes inv: "ledger_inv s" and priced: "pricedTier rt"
    and step: "ledger_step s (ConsumeStart k rt now) = Some s'"
  shows "ledger_inv s'"
proof (cases "ledgerTokens s k")
  case None
  with step have "s' = s\<lparr> ledgerTokens := ledgerTokens s \<rparr>"
    by (simp add: consume_unknown)
  with inv show ?thesis by (simp add: ledger_inv_def)
next
  case (Some tok)
  from inv Some obtain c u where cu: "credits tok = JNum c" "usedCredits tok = JNum u"
      "pendingCost (inFlight s) k \<le> u" "u \<le> c" and kin: "k \<in> set (issuedIds s)"
    unfolding ledger_inv_def by blast
  note n = numCost_priced [OF priced]
  consider (expired) "expiresAt tok < now"
    | (insufficient) "now \<le> expiresAt tok" "c - u < numCost rt"
    | (valid) "now \<le> expiresAt tok" "numCost rt \<le> c - u"
    by linarith
  then show ?thesis
  proof cases
    case expired
    with step Some have "s' = s\<lparr> ledgerTokens := (ledgerTokens s)(k := None) \<rparr>"
      by (simp add: consume_expired)
    with inv show ?thesis by (auto simp: ledger_inv_def split: if_splits)
  next
    case insufficient
    with step Some cu n have "s' = s\<lparr> ledgerTokens := ledgerTokens s \<rparr>"
      using consume_insufficient [of "ledgerTokens s" k tok now c u rt "numCost rt"] by simp
    with inv show ?thesis by (simp add: ledger_inv_def)
  next
    case valid
    with step Some cu n have s': "s' = s\<lparr> ledgerTokens := (ledgerTokens s)(k \<mapsto>
          tok\<lparr> usedCredits := JNum (u + numCost rt), lastUsed := Some now \<rparr>),
          inFlight := (k, rt) # inFlight s \<rparr>"
      using consume_valid [of "ledgerTokens s" k tok now c u rt "numCost rt"] by simp
    show ?thesis
      using inv cu kin priced valid
      unfolding s' ledger_inv_def
      by (auto split: if_splits)
  qed
qed

lemma ledger_inv_settle:
  assumes inv: "ledger_inv s"
    and step: "ledger_step s (SettleSuccess k rt) = Some s'"
  shows "ledger_inv s'"
proof -
  from step have mem: "(k, rt) \<in> set (inFlight s)"
    and s': "s' = s\<lparr> inFlight := remove1 (k, rt) (inFlight s) \<rparr>"
    by (simp_all split: if_splits)
  from inv mem have "pricedTier rt" by (auto simp: ledger_inv_def)
  then have pos: "0 < numCost rt" using numCost_priced by simp
  have le: "pendingCost (remove1 (k, rt) (inFlight s)) k' \<le> pendingCost (inFlight s) k'" for k'
    using pendingCost_remove1 [OF mem, of k'] pos by simp
  have sub: "set (remove1 (k, rt) (inFlight s)) \<subseteq> set (inFlight s)"
    by (rule set_remove1_subset)
  show ?thesis
    unfolding s' ledger_inv_def
  proof (intro conjI allI impI ballI)
    fix k' tok assume "ledgerTokens (s\<lparr>inFlight := remove1 (k, rt) (inFlight s)\<rparr>) k' = Some tok"
    then have t: "ledgerTokens s k' = Some tok" by simp
    with inv show "k' \<in> set (issuedIds (s\<lparr>inFlight := remove1 (k, rt) (inFlight s)\<rparr>))"
      by (auto simp: ledger_inv_def)
    from inv t obtain c u where "credits tok = JNum c" "usedCredits tok = JNum u"
      "pendingCost (inFlight s) k' \<le> u" "u \<le> c"
      unfolding ledger_inv_def by blast
    with le [of k'] show "\<exists>c u. credits tok = JNum c \<and> usedCredits tok = JNum u \<and>
        pendingCost (inFlight (s\<lparr>inFlight := remove1 (k, rt) (inFlight s)\<rparr>)) k' \<le> u \<and> u \<le> c"
      by auto
  next
    fix r assume "r \<in> set (inFlight (s\<lparr>inFlight := remove1 (k, rt) (inFlight s)\<rparr>))"
    with sub have "r \<in> set (inFlight s)" by auto
    with inv show "fst r \<in> set (issuedIds (s\<lparr>inFlight := remove1 (k, rt) (inFlight s)\<rparr>))"
      and "pricedTier (snd r)"
      by (auto simp: ledger_inv_def)
  qed
qed

lemma refundCredit_lookup:
  "refundCredit tokens k rt k' =
     (if k' = k
      then map_option (\<lambda>tok. tok\<lparr> usedCredits := js_sub (usedCredits tok) (creditsNeededFor rt) \<rparr>)
             (tokens k)
      else tokens k')"
  by (simp add: refundCredit_def split: option.splits)

lemma ledger_inv_refund:
  assumes inv: "ledger_inv s"
    and step: "ledger_step s (RefundOnFailure k rt) = Some s'"
  shows "ledger_inv s'"
proof -
  from step have mem: "(k, rt) \<in> set (inFlight s)"
    and s': "s' = s\<lparr> ledgerTokens := refundCredit (ledgerTokens s) k rt,
                     inFlight := remove1 (k, rt) (inFlight s) \<rparr>"
    by (simp_all split: if_splits)
  from inv mem have priced: "pricedTier rt" by (auto simp: ledger_inv_def)
  note n = numCost_priced [OF priced]
  have pc: "pendingCost (remove1 (k, rt) (inFlight s)) k' =
      pendingCost (inFlight s) k' - (if k = k' then numCost rt else 0)" for k'
    using pendingCost_remove1 [OF mem, of k'] by simp
  have sub: "set (remove1 (k, rt) (inFlight s)) \<subseteq> set (inFlight s)"
    by (rule set_remove1_subset)
  show ?thesis
    unfolding s' ledger_inv_def
  proof (intro conjI allI impI ballI)
    fix k' tok'
    assume "ledgerTokens (s\<lparr>ledgerTokens := refundCredit (ledgerTokens s) k rt,
                     inFlight := remove1 (k, rt) (inFlight s)\<rparr>) k' = Some tok'"
    then have t': "refundCredit (ledgerTokens s) k rt k' = Some tok'" by simp
    then obtain tok where t: "ledgerTokens s k' = Some tok"
      and tok': "tok' = (if k' = k then tok\<lparr> usedCredits := js_sub (usedCredits tok) (creditsNeededFor rt) \<rparr> else tok)"
      unfolding refundCredit_lookup by (cases "k' = k") auto
    from inv t show "k' \<in> set (issuedIds (s\<lparr>ledgerTokens := refundCredit (ledgerTokens s) k rt,
                     inFlight := remove1 (k, rt) (inFlight s)\<rparr>))"
      by (auto simp: ledger_inv_def)
    from inv t obtain c u where cu: "credits tok = JNum c" "usedCredits tok = JNum u"
      "pendingCost (inFlight s) k' \<le> u" "u \<le> c"
      unfolding ledger_inv_def by blast
    show "\<exists>c u. credits tok' = JNum c \<and> usedCredits tok' = JNum u \<and>
        pendingCost (inFlight (s\<lparr>ledgerTokens := refundCredit (ledgerTokens s) k rt,
                     inFlight := remove1 (k, rt) (inFlight s)\<rparr>)) k' \<le> u \<and> u \<le> c"
      using cu n pc [of k'] by (auto simp: tok')
  next
    fix r assume "r \<in> set (inFlight (s\<lparr>ledgerTokens := refundCredit (ledgerTokens s) k rt,
                     inFlight := remove1 (k, rt) (inFlight s)\<rparr>))"
    with sub have "r \<in> set (inFlight s)" by auto
    with inv show "fst r \<in> set (issuedIds (s\<lparr>ledgerTokens := refundCredit (ledgerTokens s) k rt,
                     inFlight := remove1 (k, rt) (inFlight s)\<rparr>))"
      and "pricedTier (snd r)"
      by (auto simp: ledger_inv_def)
  qed
qed

lemma ledger_inv_step:
  "ledger_inv s \<Longrightarrow> pricedTier (eventTier e) \<Longrightarrow> ledger_step s e = Some s' \<Longrightarrow> ledger_inv s'"
  by (cases e)
    (auto intro: ledger_inv_issue ledger_inv_consume ledger_inv_settle ledger_inv_refund
      simp del: ledger_step.simps)

lemma ledger_inv_run:
  "ledger_inv s \<Longrightarrow> \<forall>e \<in> set evs. pricedTier (eventTier e) \<Longrightarrow>
   ledger_run s evs = Some s' \<Longrightarrow> ledger_inv s'"
proof (induction evs arbitrary: s)
  case Nil
  then show ?case by simp
next
  case (Cons e evs)
  from Cons.prems(3) obtain s1 where s1: "ledger_step s e = Some s1" "ledger_run s1 evs = Some s'"
    by (auto split: option.splits)
  from Cons.prems(1,2) s1(1) have "ledger_inv s1" by (auto intro: ledger_inv_step)
  with Cons.IH [of s1] Cons.prems(2) s1(2) show ?case by simp
qed

text \<open>
  As long as every tier in the events is priced, every token in the table has
  \<open>0 \<le> usedCredits \<le> credits\<close> after every event, so in particular whenever no
  request is in flight.
\<close>

lemma credit_bound_priced_tiers:
  assumes "ledger_run initial_ledger evs = Some s"
    and "\<forall>e \<in> set evs. pricedTier (eventTier e)"
    and "ledgerTokens s k = Some tok"
  shows "\<exists>c u. credits tok = JNum c \<and> usedCredits tok = JNum u \<and> 0 \<le> u \<and> u \<le> c"
proof -
  have inv: "ledger_inv s"
    using ledger_inv_run [OF ledger_inv_initial assms(2) assms(1)] .
  then have priced: "\<forall>r \<in> set (inFlight s). pricedTier (snd r)"
    by (simp add: ledger_inv_def)
  from inv assms(3) obtain c u where cu: "credits tok = JNum c" "usedCredits tok = JNum u"
      "pendingCost (inFlight s) k \<le> u" "u \<le> c"
    unfolding ledger_inv_def by blast
  from pendingCost_nonneg [OF priced, of k] cu(3) have "0 \<le> u" by simp
  with cu show ?thesis by blast
qed

lemma withinCreditBound_numeric:
  "credits tok = JNum c \<Longrightarrow> usedCredits tok = JNum u \<Longrightarrow>
   withinCreditBound tok = (0 \<le> u \<and> u \<le> c)"
  by (simp add: withinCreditBound_def js_le_def)

lemma credit_bound_priced_tiers_example:
  "list_all (\<lambda>e. pricedTier (eventTier e))
     [Issue ''ab'' ''basic'' ''pay'' 0, ConsumeStart ''ab'' ''premium'' 5,
      ConsumeStart ''ab'' ''gold'' 6, RefundOnFailure ''ab'' ''premium'',
      SettleSuccess ''ab'' ''gold''] \<and>
   map_option usedCredits (ledgerTokens (the (ledger_run initial_ledger
     [Issue ''ab'' ''basic'' ''pay'' 0, ConsumeStart ''ab'' ''premium'' 5,
      ConsumeStart ''ab'' ''gold'' 6, RefundOnFailure ''ab'' ''premium'',
      SettleSuccess ''ab'' ''gold''])) ''ab'') = Some (JNum 1) \<and>
   map_option withinCreditBound (ledgerTokens (the (ledger_run initial_ledger
     [Issue ''ab'' ''basic'' ''pay'' 0, ConsumeStart ''ab'' ''premium'' 5,
      ConsumeStart ''ab'' ''gold'' 6, RefundOnFailure ''ab'' ''premium'',
      SettleSuccess ''ab'' ''gold''])) ''ab'') = Some True"
  by code_simp

text \<open>
  Claim C1: for every access token, whenever no request is in flight,
  \<open>0 \<le> usedCredits \<le> credits\<close>, and every interleaving of issue, consume and
  refund-on-failure keeps that bound. The code is evaluated here at a tier named like
  a member inherited from \<open>Object.prototype\<close>, which \<open>POST /scrape\<close> passes on
  unchecked. A fresh basic token \<open>ab\<close> is issued and one request of tier
  \<open>constructor\<close> is admitted. If its extraction succeeds, no request is in flight
  and \<open>usedCredits\<close> is the string \<open>0function Object() { [native code] }\<close>; if it
  fails and is refunded, no request is in flight and \<open>usedCredits\<close> is \<open>NaN\<close>. In both
  cases \<open>0 <= usedCredits && usedCredits <= credits\<close> is false. The handler reaches
  the first state with status 200 and the second with status 500.
\<close>

theorem credit_bound_inherited_tier_evaluation:
  "map_option inFlight (ledger_run initial_ledger
      [Issue ''ab'' ''basic'' ''pay'' 0, ConsumeStart ''ab'' ''constructor'' 5,
       SettleSuccess ''ab'' ''constructor'']) = Some [] \<and>
   map_option usedCredits (ledgerTokens (the (ledger_run initial_ledger
      [Issue ''ab'' ''basic'' ''pay'' 0, ConsumeStart ''ab'' ''constructor'' 5,
       SettleSuccess ''ab'' ''constructor''])) ''ab'')
     = Some (JStr ''0function Object() { [native code] }'') \<and>
   map_option withinCreditBound (ledgerTokens (the (ledger_run initial_ledger
      [Issue ''ab'' ''basic'' ''pay'' 0, ConsumeStart ''ab'' ''constructor'' 5,
       SettleSuccess ''ab'' ''constructor''])) ''ab'') = Some False \<and>
   map_option inFlight (ledger_run initial_ledger
      [Issue ''ab'' ''basic'' ''pay'' 0, ConsumeStart ''ab'' ''constructor'' 5,
       RefundOnFailure ''ab'' ''constructor'']) = Some [] \<and>
   map_option usedCredits (ledgerTokens (the (ledger_run initial_ledger
      [Issue ''ab'' ''basic'' ''pay'' 0, ConsumeStart ''ab'' ''constructor'' 5,
       RefundOnFailure ''ab'' ''constructor''])) ''ab'') = Some JNaN \<and>
   map_option withinCreditBound (ledgerTokens (the (ledger_run initial_ledger
      [Issue ''ab'' ''basic'' ''pay'' 0, ConsumeStart ''ab'' ''constructor'' 5,
       RefundOnFailure ''ab'' ''constructor''])) ''ab'') = Some False \<and>
   map_option withinCreditBound (creditTokens (sample_gateway {}) ''ab'') = Some True \<and>
   status (fst (scrapeRoute (sample_gateway {}) (sample_env ScrapeSuccess)
      ((sample_request ''https://example.com/docs'')\<lparr> reqTier := Some ''constructor'' \<rparr>)))
     = 200 \<and>
   map_option withinCreditBound (creditTokens (fst (snd (scrapeRoute (sample_gateway {})
      (sample_env ScrapeSuccess)
      ((sample_request ''https://example.com/docs'')\<lparr> reqTier := Some ''constructor'' \<rparr>))))
      ''ab'') = Some False \<and>
   status (fst (scrapeRoute (sample_gateway {}) (sample_env (ScrapeFailure ''HTTP 500''))
      ((sample_request ''https://example.com/docs'')\<lparr> reqTier := Some ''constructor'' \<rparr>)))
     = 500 \<and>
   map_option withinCreditBound (creditTokens (fst (snd (scrapeRoute (sample_gateway {})
      (sample_env (ScrapeFailure ''HTTP 500''))
      ((sample_request ''https://example.com/docs'')\<lparr> reqTier := Some ''constructor'' \<rparr>))))
      ''ab'') = Some False"
  by code_simp

section \<open>Refund on a failed scrape\<close>

text \<open>
  For a token with numeric fields and a tier with a numeric price that the balance
  covers, a failed or thrown extraction leaves \<open>POST /scrape\<close> in exactly this state:
  the consume charged the price, the response is the 500 of the branch taken with
  \<open>creditRefunded\<close>, the stages were entered in the order fields, restricted domain,
  consume, extraction, refund, and the token table is the one before the request except
  that the token's \<open>lastUsed\<close> is the time of the consume.
\<close>

lemma failed_scrape_priced_tier:
  assumes "present (reqUrl req)" and "reqAccessToken req = Some k" and "k \<noteq> []"
    and "isValidUrl (parseURL env (fieldText (reqUrl req)))"
    and "creditTokens gs k = Some tok" and "admittedAt env \<le> expiresAt tok"
    and "credits tok = JNum c" and "usedCredits tok = JNum u"
    and "creditsNeededFor (requestTier req) = JNum n" and "n \<le> c - u"
    and "extraction env \<noteq> ScrapeSuccess"
  shows "snd (validateAndConsumeCredit (creditTokens gs) k (requestTier req) (admittedAt env))
           = (creditTokens gs)(k \<mapsto> tok\<lparr> usedCredits := JNum (u + n),
                                            lastUsed := Some (admittedAt env) \<rparr>)"
    and "scrapeRoute gs env req =
           (\<lparr> status = 500,
              errorText = Some (case extraction env of
                                  ScrapeThrown msg \<Rightarrow> ''Server error during scraping''
                                | _ \<Rightarrow> ''Scraping failed''),
              details = Some (case extraction env of
                                ScrapeFailure err \<Rightarrow> err
                              | ScrapeThrown msg \<Rightarrow> msg
                              | ScrapeSuccess \<Rightarrow> []),
              creditRefunded = True, creditsRemaining = None \<rparr>,
            gs\<lparr> creditTokens :=
                  (creditTokens gs)(k \<mapsto> tok\<lparr> lastUsed := Some (admittedAt env) \<rparr>) \<rparr>,
            [FieldCheck, RestrictedDomainCheck, CreditConsume, Extraction, Refund])"
proof -
  have consume: "validateAndConsumeCredit (creditTokens gs) k (requestTier req) (admittedAt env) =
      (CreditValid (JNum (c - u - n)) (tier tok),
       (creditTokens gs)(k \<mapsto> tok\<lparr> usedCredits := JNum (u + n), lastUsed := Some (admittedAt env) \<rparr>))"
    using consume_valid [of "creditTokens gs" k tok "admittedAt env" c u "requestTier req" n] assms
    by simp
  then show "snd (validateAndConsumeCredit (creditTokens gs) k (requestTier req) (admittedAt env))
           = (creditTokens gs)(k \<mapsto> tok\<lparr> usedCredits := JNum (u + n),
                                            lastUsed := Some (admittedAt env) \<rparr>)"
    by simp
  have refund: "refundCredit
        ((creditTokens gs)(k \<mapsto> tok\<lparr> usedCredits := JNum (u + n), lastUsed := Some (admittedAt env) \<rparr>))
        k (requestTier req)
      = (creditTokens gs)(k \<mapsto> tok\<lparr> lastUsed := Some (admittedAt env) \<rparr>)"
    using assms(8,9) by (auto simp: refundCredit_lookup fun_eq_iff)
  from assms(11) consider err where "extraction env = ScrapeFailure err"
    | msg where "extraction env = ScrapeThrown msg"
    by (cases "extraction env") auto
  then show "scrapeRoute gs env req =
           (\<lparr> status = 500,
              errorText = Some (case extraction env of
                                  ScrapeThrown msg \<Rightarrow> ''Server error during scraping''
                                | _ \<Rightarrow> ''Scraping failed''),
              details = Some (case extraction env of
                                ScrapeFailure err \<Rightarrow> err
                              | ScrapeThrown msg \<Rightarrow> msg
                              | ScrapeSuccess \<Rightarrow> []),
              creditRefunded = True, creditsRemaining = None \<rparr>,
            gs\<lparr> creditTokens :=
                  (creditTokens gs)(k \<mapsto> tok\<lparr> lastUsed := Some (admittedAt env) \<rparr>) \<rparr>,
            [FieldCheck, RestrictedDomainCheck, CreditConsume, Extraction, Refund])"
  proof cases
    case 1
    then show ?thesis
      using assms(1-4) consume refund
      by (simp add: scrapeRoute_def Let_def staged_def)
  next
    case 2
    then show ?thesis
      using assms(1-4) consume refund
      by (simp add: scrapeRoute_def Let_def staged_def)
  qed
qed

text \<open>
  Claim C2: when extraction fails after a successful consume, the refund takes the
  tier's cost off \<open>usedCredits\<close> once, the balance is what it was before the consume,
  and the response says the credit was refunded. The code is evaluated here on
  \<open>POST /scrape\<close> with a fresh basic token (\<open>usedCredits\<close> 0), the tier \<open>constructor\<close>
  and an extraction that fails: the consume is granted and leaves \<open>usedCredits\<close> the
  string \<open>0function Object() { [native code] }\<close>, the refund stage is entered once, the
  response is a 500 with \<open>creditRefunded\<close>, and \<open>usedCredits\<close> is then \<open>NaN\<close>, not
  0. A later basic request on that token that fails again is also answered
  \<open>creditRefunded\<close> and leaves \<open>NaN\<close>.
\<close>

theorem failed_scrape_inherited_tier_evaluation:
  "map_option usedCredits (creditTokens (sample_gateway {}) ''ab'') = Some (JNum 0) \<and>
   map_option usedCredits (snd (validateAndConsumeCredit (creditTokens (sample_gateway {}))
      ''ab'' ''constructor'' 1000) ''ab'')
     = Some (JStr ''0function Object() { [native code] }'') \<and>
   creditGranted (fst (validateAndConsumeCredit (creditTokens (sample_gateway {}))
      ''ab'' ''constructor'' 1000)) \<and>
   fst (scrapeRoute (sample_gateway {}) (sample_env (ScrapeFailure ''HTTP 500''))
      ((sample_request ''https://example.com/docs'')\<lparr> reqTier := Some ''constructor'' \<rparr>))
     = \<lparr> status = 500, errorText = Some ''Scraping failed'', details = Some ''HTTP 500'',
         creditRefunded = True, creditsRemaining = None \<rparr> \<and>
   snd (snd (scrapeRoute (sample_gateway {}) (sample_env (ScrapeFailure ''HTTP 500''))
      ((sample_request ''https://example.com/docs'')\<lparr> reqTier := Some ''constructor'' \<rparr>)))
     = [FieldCheck, RestrictedDomainCheck, CreditConsume, Extraction, Refund] \<and>
   map_option usedCredits (creditTokens (fst (snd (scrapeRoute (sample_gateway {})
      (sample_env (ScrapeFailure ''HTTP 500''))
      ((sample_request ''https://example.com/docs'')\<lparr> reqTier := Some ''constructor'' \<rparr>))))
      ''ab'') = Some JNaN \<and>
   creditRefunded (fst (scrapeRoute
      (fst (snd (scrapeRoute (sample_gateway {}) (sample_env (ScrapeFailure ''HTTP 500''))
         ((sample_request ''https://example.com/docs'')\<lparr> reqTier := Some ''constructor'' \<rparr>))))
      (sample_env (ScrapeThrown ''timeout''))
      ((sample_request ''https://example.com/docs'')\<lparr> reqTier := Some ''basic'' \<rparr>))) \<and>
   map_option usedCredits (creditTokens (fst (snd (scrapeRoute
      (fst (snd (scrapeRoute (sample_gateway {}) (sample_env (ScrapeFailure ''HTTP 500''))
         ((sample_request ''https://example.com/docs'')\<lparr> reqTier := Some ''constructor'' \<rparr>))))
      (sample_env (ScrapeThrown ''timeout''))
      ((sample_request ''https://example.com/docs'')\<lparr> reqTier := Some ''basic'' \<rparr>))))
      ''ab'') = Some JNaN"
  by code_simp

section \<open>The order of the admission stages\<close>


subsection \<open>The branches of \<open>POST /test-scrape\<close>\<close>

lemma banned_request_denied:
  assumes "reqIp req \<in> bannedIPs (abuse gs)"
  shows "testScrapeRoute gs env req =
     ((reply 403 ''Access denied'')\<lparr> details := Some ''IP banned due to abuse'' \<rparr>, gs, [BanCheck])"
  using assms by (simp add: testScrapeRoute_def Let_def checkIPStatus_def staged_def)







lemma requestDomain_extraction [simp]:
  "requestDomain (env\<lparr> extraction := x \<rparr>) req = requestDomain env req"
  by (simp add: requestDomain_def)


subsection \<open>The branches of \<open>POST /scrape\<close>\<close>

lemma scrape_missing_fields:
  assumes "\<not> (present (reqUrl req) \<and> present (reqAccessToken req))"
  shows "scrapeRoute gs env req =
     (reply 400 ''Missing required fields: url, accessToken'', gs, [FieldCheck])"
  using assms by (auto simp: scrapeRoute_def Let_def staged_def)

lemma scrape_restricted_domain:
  assumes "present (reqUrl req)" and "present (reqAccessToken req)"
    and "\<not> isValidUrl (parseURL env (fieldText (reqUrl req)))"
  shows "scrapeRoute gs env req =
     ((reply 400 ''Invalid URL or restricted domain'')\<lparr> details := Some restrictedDetails \<rparr>,
      gs, [FieldCheck, RestrictedDomainCheck])"
  using assms by (simp add: scrapeRoute_def Let_def staged_def)

lemma scrape_credit_denied:
  assumes "present (reqUrl req)" and "present (reqAccessToken req)"
    and "isValidUrl (parseURL env (fieldText (reqUrl req)))"
    and "fst (validateAndConsumeCredit (creditTokens gs) (fieldText (reqAccessToken req))
                (requestTier req) (admittedAt env)) = CreditDenied err available needed"
  shows "scrapeRoute gs env req =
     (reply 402 err,
      gs\<lparr> creditTokens :=
            snd (validateAndConsumeCredit (creditTokens gs) (fieldText (reqAccessToken req))
                   (requestTier req) (admittedAt env)) \<rparr>,
      [FieldCheck, RestrictedDomainCheck, CreditConsume])"
  using assms
  by (cases "validateAndConsumeCredit (creditTokens gs) (fieldText (reqAccessToken req))
                (requestTier req) (admittedAt env)")
     (simp add: scrapeRoute_def Let_def staged_def)

lemma scrape_credit_granted:
  assumes "present (reqUrl req)" and "present (reqAccessToken req)"
    and "isValidUrl (parseURL env (fieldText (reqUrl req)))"
    and "fst (validateAndConsumeCredit (creditTokens gs) (fieldText (reqAccessToken req))
                (requestTier req) (admittedAt env)) = CreditValid remaining tokenTier"
  shows "scrapeRoute gs env req =
     (case extraction env of
        ScrapeSuccess \<Rightarrow>
          (\<lparr> status = 200, errorText = None, details = None, creditRefunded = False,
             creditsRemaining = Some remaining \<rparr>,
           gs\<lparr> creditTokens :=
                 snd (validateAndConsumeCredit (creditTokens gs)
                        (fieldText (reqAccessToken req)) (requestTier req) (admittedAt env)) \<rparr>,
           [FieldCheck, RestrictedDomainCheck, CreditConsume, Extraction])
      | ScrapeFailure err \<Rightarrow>
          (\<lparr> status = 500, errorText = Some ''Scraping failed'', details = Some err,
             creditRefunded = True, creditsRemaining = None \<rparr>,
           gs\<lparr> creditTokens :=
                 refundCredit
                   (snd (validateAndConsumeCredit (creditTokens gs)
                           (fieldText (reqAccessToken req)) (requestTier req) (admittedAt env)))
                   (fieldText (reqAccessToken req)) (requestTier req) \<rparr>,
           [FieldCheck, RestrictedDomainCheck, CreditConsume, Extraction, Refund])
      | ScrapeThrown msg \<Rightarrow>
          (\<lparr> status = 500, errorText = Some ''Server error during scraping'',
             details = Some msg, creditRefunded = True, creditsRemaining = None \<rparr>,
           gs\<lparr> creditTokens :=
                 refundCredit
                   (snd (validateAndConsumeCredit (creditTokens gs)
                           (fieldText (reqAccessToken req)) (requestTier req) (admittedAt env)))
                   (fieldText (reqAccessToken req)) (requestTier req) \<rparr>,
           [FieldCheck, RestrictedDomainCheck, CreditConsume, Extraction, Refund]))"
  using assms
  by (cases "validateAndConsumeCredit (creditTokens gs) (fieldText (reqAccessToken req))
                (requestTier req) (admittedAt env)"; cases "extraction env")
     (simp_all add: scrapeRoute_def Let_def staged_def)

lemma scrapeRoute_cases:
  obtains (fields) "\<not> (present (reqUrl req) \<and> present (reqAccessToken req))"
  | (restricted) "present (reqUrl req)" "present (reqAccessToken req)"
      "\<not> isValidUrl (parseURL env (fieldText (reqUrl req)))"
  | (denied) err available needed where
      "present (reqUrl req)" "present (reqAccessToken req)"
      "isValidUrl (parseURL env (fieldText (reqUrl req)))"
      "fst (validateAndConsumeCredit (creditTokens gs) (fieldText (reqAccessToken req))
              (requestTier req) (admittedAt env)) = CreditDenied err available needed"
  | (granted) remaining tokenTier where
      "present (reqUrl req)" "present (reqAccessToken req)"
      "isValidUrl (parseURL env (fieldText (reqUrl req)))"
      "fst (validateAndConsumeCredit (creditTokens gs) (fieldText (reqAccessToken req))
              (requestTier req) (admittedAt env)) = CreditValid remaining tokenTier"
  by (cases "fst (validateAndConsumeCredit (creditTokens gs) (fieldText (reqAccessToken req))
              (requestTier req) (admittedAt env))") blast+



lemma scrapeRoute_consume_iff:
  "CreditConsume \<in> set (snd (snd (scrapeRoute gs env req))) \<longleftrightarrow>
     present (reqUrl req) \<and> present (reqAccessToken req) \<and>
     isValidUrl (parseURL env (fieldText (reqUrl req)))"
proof (cases rule: scrapeRoute_cases [where req = req and gs = gs and env = env])
  case fields
  then show ?thesis using scrape_missing_fields [of req gs env] by auto
next
  case restricted
  then show ?thesis using scrape_restricted_domain [of req env gs] by simp
next
  case (denied err available needed)
  then show ?thesis using scrape_credit_denied [of req env gs err available needed] by simp
next
  case (granted remaining tokenTier)
  then show ?thesis
    using scrape_credit_granted [of req env gs remaining tokenTier]
    by (cases "extraction env") simp_all
qed


subsection \<open>The branches of \<open>POST /scrape-legacy\<close>\<close>







subsection \<open>The three endpoints\<close>

text \<open>
  A URL with the scheme \<open>http:\<close> on \<open>POST /test-scrape\<close>: the request for
  robots.txt throws, \<open>validateUrlEnhanced\<close> turns that into an invalid result, and
  the answer is a 400 at the legality stage.
\<close>

lemma plain_http_request_example:
  "fst (testScrapeRoute (sample_gateway {}) (sample_env ScrapeSuccess)
          (sample_request ''http://example.com/docs''))
     = (reply 400 ''URL validation failed'')
         \<lparr> details := Some (''Validation error: '' @ invalidProtocolMessage ''http:'') \<rparr> \<and>
   snd (snd (testScrapeRoute (sample_gateway {}) (sample_env ScrapeSuccess)
          (sample_request ''http://example.com/docs'')))
     = [BanCheck, RateAdmission, UrlPresence, LegalityCheck]"
  by code_simp




section \<open>What the rate check changes\<close>

text \<open>
  Claim C5, as stated, makes \<open>checkRateLimit\<close> a pure check. For a caller with ten
  failures in the window it adds the caller to the ban set, and for a caller it has not
  seen before it adds an entry to the per-IP table.
\<close>

theorem checkRateLimit_mutates_counterexample:
  "''10.0.0.1'' \<notin> bannedIPs sample_failures_state \<and>
   ''10.0.0.1'' \<in> bannedIPs (snd (checkRateLimit sample_failures_state ''10.0.0.1'' None 1000)) \<and>
   ipTracker initial_abuse_state ''ip_10.0.0.2'' = None \<and>
   ipTracker (snd (checkRateLimit initial_abuse_state ''10.0.0.2'' None 1000)) ''ip_10.0.0.2''
     = Some \<lparr> requests = [], failures = [] \<rparr>"
  by code_simp

lemma reportAbuse_fields [simp]:
  "ipTracker (reportAbuse st ip reason meta now) = ipTracker st"
  "domainTracker (reportAbuse st ip reason meta now) = domainTracker st"
  "suspiciousIPs (reportAbuse st ip reason meta now) = suspiciousIPs st"
  "bannedIPs (reportAbuse st ip reason meta now) = bannedIPs st"
  by (simp_all add: reportAbuse_def Let_def)

lemma flagSuspiciousIP_fields [simp]:
  "ipTracker (flagSuspiciousIP st ip reason now) = ipTracker st"
  "domainTracker (flagSuspiciousIP st ip reason now) = domainTracker st"
  "suspiciousIPs (flagSuspiciousIP st ip reason now) = insert ip (suspiciousIPs st)"
  "bannedIPs (flagSuspiciousIP st ip reason now) = bannedIPs st"
  by (simp_all add: flagSuspiciousIP_def)

lemma ipEntry_ensureIp [simp]: "ipEntry (ensureIp tracker key) key' = ipEntry tracker key'"
  by (simp add: ipEntry_def ensureIp_def split: option.splits)

lemma domainEntry_ensureDomain [simp]:
  "domainEntry (ensureDomain tracker key) key' = domainEntry tracker key'"
  by (simp add: domainEntry_def ensureDomain_def split: option.splits)

lemma ipEntry_upd [simp]: "ipEntry (tracker(key \<mapsto> d)) key' = (if key' = key then d else ipEntry tracker key')"
  by (simp add: ipEntry_def)

lemma domainEntry_upd [simp]:
  "domainEntry (tracker(key \<mapsto> d)) key' = (if key' = key then d else domainEntry tracker key')"
  by (simp add: domainEntry_def)

text \<open>The tracker tables after checkRateLimit, whatever it answers.\<close>

lemma checkRateLimit_ipTracker:
  "ipEntry (ipTracker (snd (checkRateLimit st ip domain now))) key =
     (if key = ''ip_'' @ ip
      then \<lparr> requests = filter (inWindow now) (requests (ipEntry (ipTracker st) key)),
             failures = filter (inWindow now) (failures (ipEntry (ipTracker st) key)) \<rparr>
      else ipEntry (ipTracker st) key)"
  by (simp add: checkRateLimit_def Let_def)

lemma checkRateLimit_domainTracker:
  "domainEntry (domainTracker (snd (checkRateLimit st ip domain now))) key =
     domainEntry (domainTracker st) key \<or>
   domainEntry (domainTracker (snd (checkRateLimit st ip domain now))) key =
     \<lparr> domainRequests = filter (inWindow now) (domainRequests (domainEntry (domainTracker st) key)) \<rparr>"
  by (simp add: checkRateLimit_def Let_def)

lemma checkRateLimit_sets:
  "suspiciousIPs st \<subseteq> suspiciousIPs (snd (checkRateLimit st ip domain now)) \<and>
   suspiciousIPs (snd (checkRateLimit st ip domain now)) \<subseteq> insert ip (suspiciousIPs st) \<and>
   bannedIPs st \<subseteq> bannedIPs (snd (checkRateLimit st ip domain now)) \<and>
   bannedIPs (snd (checkRateLimit st ip domain now)) \<subseteq> insert ip (bannedIPs st)"
  by (auto simp: checkRateLimit_def Let_def)

lemma checkRateLimit_allowed:
  "fst (checkRateLimit st ip domain now) = RateAllowed remaining \<Longrightarrow>
   suspiciousIPs (snd (checkRateLimit st ip domain now)) = suspiciousIPs st \<and>
   bannedIPs (snd (checkRateLimit st ip domain now)) = bannedIPs st \<and>
   abuseReports (snd (checkRateLimit st ip domain now)) = abuseReports st"
  by (auto simp: checkRateLimit_def Let_def split: if_splits)

lemma checkRateLimit_noTimestampAdded:
  "noTimestampAdded st (snd (checkRateLimit st ip domain now))"
  unfolding noTimestampAdded_def
proof (intro allI conjI)
  fix key
  show "set (requests (ipEntry (ipTracker (snd (checkRateLimit st ip domain now))) key))
      \<subseteq> set (requests (ipEntry (ipTracker st) key))"
    by (simp add: checkRateLimit_ipTracker)
  show "set (failures (ipEntry (ipTracker (snd (checkRateLimit st ip domain now))) key))
      \<subseteq> set (failures (ipEntry (ipTracker st) key))"
    by (simp add: checkRateLimit_ipTracker)
  show "set (domainRequests (domainEntry (domainTracker (snd (checkRateLimit st ip domain now))) key))
      \<subseteq> set (domainRequests (domainEntry (domainTracker st) key))"
    using checkRateLimit_domainTracker [of st ip domain now key] by auto
qed

lemma cleanOldEntries_noTimestampAdded: "noTimestampAdded st (cleanOldEntries st now)"
  by (auto simp: noTimestampAdded_def cleanOldEntries_def Let_def ipEntry_def domainEntry_def
      split: option.splits if_splits)

lemma banIP_noTimestampAdded: "noTimestampAdded st (banIP st ip reason now)"
  by (simp add: noTimestampAdded_def banIP_def)

lemma unbanIP_noTimestampAdded: "noTimestampAdded st (unbanIP st ip)"
  by (simp add: noTimestampAdded_def unbanIP_def)

lemma ensureIp_upd [simp]: "(ensureIp tracker key)(key \<mapsto> d) = tracker(key \<mapsto> d)"
  by (simp add: ensureIp_def split: option.splits)

lemma ensureDomain_upd [simp]: "(ensureDomain tracker key)(key \<mapsto> d) = tracker(key \<mapsto> d)"
  by (simp add: ensureDomain_def split: option.splits)

lemma foldl_min_Min: "foldl min (x :: int) xs = Min (set (x # xs))"
proof (induction xs arbitrary: x)
  case Nil
  then show ?case by simp
next
  case (Cons y ys)
  have "foldl min x (y # ys) = foldl min (min x y) ys" by simp
  also have "\<dots> = Min (set (min x y # ys))" by (rule Cons.IH)
  also have "\<dots> = Min (set (x # y # ys))"
    by (cases ys) (simp_all add: min.assoc)
  finally show ?case .
qed

lemma earliest_request: "xs \<noteq> [] \<Longrightarrow> foldl min (hd xs) (tl xs) = Min (set (xs :: int list))"
  using foldl_min_Min [of "hd xs" "tl xs"] by simp

lemma calculateSeverity_rate_limit: "calculateSeverity ''Rate limit exceeded'' = MEDIUM"
  by code_simp

text \<open>What \<open>checkRateLimit\<close> leaves and answers, branch by branch.\<close>

lemma checkRateLimit_tracker_exact:
  "ipTracker (snd (checkRateLimit st ip domain now)) =
     (ipTracker st)(''ip_'' @ ip \<mapsto>
        \<lparr> requests = filter (inWindow now) (requests (ipEntry (ipTracker st) (''ip_'' @ ip))),
          failures = filter (inWindow now) (failures (ipEntry (ipTracker st) (''ip_'' @ ip))) \<rparr>)"
  by (simp add: checkRateLimit_def Let_def)

lemma checkRateLimit_request_cap:
  assumes "maxRequestsPerIP
             \<le> length (filter (inWindow now) (requests (ipEntry (ipTracker st) (''ip_'' @ ip))))"
  shows "checkRateLimit st ip domain now =
     (RateDenied
        (''Rate limit exceeded: ''
           @ nat_to_string (length (filter (inWindow now)
                                      (requests (ipEntry (ipTracker st) (''ip_'' @ ip)))))
           @ ''/'' @ nat_to_string maxRequestsPerIP @ '' requests per hour'')
        (Some (Min (set (filter (inWindow now)
                           (requests (ipEntry (ipTracker st) (''ip_'' @ ip))))) + windowMs))
        False,
      flagSuspiciousIP
        (st\<lparr> ipTracker := (ipTracker st)(''ip_'' @ ip \<mapsto>
               \<lparr> requests = filter (inWindow now)
                               (requests (ipEntry (ipTracker st) (''ip_'' @ ip))),
                 failures = filter (inWindow now)
                               (failures (ipEntry (ipTracker st) (''ip_'' @ ip))) \<rparr>) \<rparr>)
        ip ''Rate limit exceeded'' now)"
proof -
  from assms have "filter (inWindow now) (requests (ipEntry (ipTracker st) (''ip_'' @ ip))) \<noteq> []"
    by (auto simp: maxRequestsPerIP_def)
  from earliest_request [OF this] assms show ?thesis
    by (simp add: checkRateLimit_def Let_def)
qed

lemma checkRateLimit_failure_cap:
  assumes "length (filter (inWindow now) (requests (ipEntry (ipTracker st) (''ip_'' @ ip))))
             < maxRequestsPerIP"
    and "maxFailedAttempts
           \<le> length (filter (inWindow now) (failures (ipEntry (ipTracker st) (''ip_'' @ ip))))"
  shows "checkRateLimit st ip domain now =
     (RateDenied
        (''Too many failed attempts: ''
           @ nat_to_string (length (filter (inWindow now)
                                      (failures (ipEntry (ipTracker st) (''ip_'' @ ip)))))
           @ ''/'' @ nat_to_string maxFailedAttempts)
        None True,
      st\<lparr> ipTracker := (ipTracker st)(''ip_'' @ ip \<mapsto>
             \<lparr> requests = filter (inWindow now)
                             (requests (ipEntry (ipTracker st) (''ip_'' @ ip))),
               failures = filter (inWindow now)
                             (failures (ipEntry (ipTracker st) (''ip_'' @ ip))) \<rparr>),
          bannedIPs := insert ip (bannedIPs st) \<rparr>)"
  using assms by (simp add: checkRateLimit_def Let_def)

lemma checkRateLimit_no_domain:
  assumes "length (filter (inWindow now) (requests (ipEntry (ipTracker st) (''ip_'' @ ip))))
             < maxRequestsPerIP"
    and "length (filter (inWindow now) (failures (ipEntry (ipTracker st) (''ip_'' @ ip))))
           < maxFailedAttempts"
    and "\<not> domainGiven domain"
  shows "checkRateLimit st ip domain now =
     (RateAllowed (int maxRequestsPerIP
        - int (length (filter (inWindow now)
                         (requests (ipEntry (ipTracker st) (''ip_'' @ ip)))))),
      st\<lparr> ipTracker := (ipTracker st)(''ip_'' @ ip \<mapsto>
             \<lparr> requests = filter (inWindow now)
                             (requests (ipEntry (ipTracker st) (''ip_'' @ ip))),
               failures = filter (inWindow now)
                             (failures (ipEntry (ipTracker st) (''ip_'' @ ip))) \<rparr>) \<rparr>)"
  using assms by (simp add: checkRateLimit_def Let_def)

lemma checkRateLimit_domain:
  assumes "length (filter (inWindow now) (requests (ipEntry (ipTracker st) (''ip_'' @ ip))))
             < maxRequestsPerIP"
    and "length (filter (inWindow now) (failures (ipEntry (ipTracker st) (''ip_'' @ ip))))
           < maxFailedAttempts"
    and "domainGiven domain"
  shows "checkRateLimit st ip domain now =
     (if maxRequestsPerDomain
           \<le> length (filter (inWindow now)
                        (domainRequests (domainEntry (domainTracker st)
                                           (''domain_'' @ the domain))))
      then RateDenied
             (''Domain rate limit exceeded: ''
                @ nat_to_string (length (filter (inWindow now)
                     (domainRequests (domainEntry (domainTracker st)
                                        (''domain_'' @ the domain)))))
                @ ''/'' @ nat_to_string maxRequestsPerDomain
                @ '' requests per hour for '' @ the domain)
             None False
      else RateAllowed (int maxRequestsPerIP
             - int (length (filter (inWindow now)
                              (requests (ipEntry (ipTracker st) (''ip_'' @ ip)))))),
      st\<lparr> ipTracker := (ipTracker st)(''ip_'' @ ip \<mapsto>
             \<lparr> requests = filter (inWindow now)
                             (requests (ipEntry (ipTracker st) (''ip_'' @ ip))),
               failures = filter (inWindow now)
                             (failures (ipEntry (ipTracker st) (''ip_'' @ ip))) \<rparr>),
          domainTracker := (domainTracker st)(''domain_'' @ the domain \<mapsto>
             \<lparr> domainRequests = filter (inWindow now)
                  (domainRequests (domainEntry (domainTracker st)
                                     (''domain_'' @ the domain))) \<rparr>) \<rparr>)"
  using assms by (simp add: checkRateLimit_def Let_def)

text \<open>
  Claim C5, amended: \<open>checkRateLimit\<close> is not a pure check. Whatever it answers, it
  leaves the per-IP table with the caller's entry created if it was missing and pruned
  to the window, and changes no other entry. When the caller's pruned requests reach
  the request cap it denies, adds the caller to the suspicious set and files a
  \<open>Rate limit exceeded\<close> report of severity \<open>MEDIUM\<close>, and leaves the ban set and
  the per-domain table alone. Otherwise, when the caller's pruned failures reach the
  failure cap it denies, adds the caller to the ban set and changes nothing else.
  Otherwise the two sets and the reports are unchanged; with a domain given, the
  domain's entry is created if missing and pruned, and the request is denied at the
  domain cap and allowed below it; with no domain the per-domain table is unchanged and
  the request is allowed. \<open>checkRateLimit\<close> never adds a timestamp to a window and
  removes nobody from the suspicious or the ban set. \<open>cleanOldEntries\<close>, \<open>banIP\<close>,
  \<open>unbanIP\<close>, \<open>flagSuspiciousIP\<close> and \<open>reportAbuse\<close> add no timestamp either;
  \<open>banIP\<close> adds to the ban set and \<open>unbanIP\<close> removes the caller from both sets.
  \<open>recordRequest\<close> and \<open>recordFailure\<close> are the operations that append the clock
  to the caller's window. A report counts as filed when \<open>reportAbuse\<close> is called.
\<close>

theorem checkRateLimit_effects:
  "(let ipKey = ''ip_'' @ ip;
        pruned = \<lparr> requests = filter (inWindow now) (requests (ipEntry (ipTracker st) ipKey)),
                   failures = filter (inWindow now) (failures (ipEntry (ipTracker st) ipKey)) \<rparr>;
        answer = fst (checkRateLimit st ip domain now);
        st' = snd (checkRateLimit st ip domain now)
    in ipTracker st' = (ipTracker st)(ipKey \<mapsto> pruned) \<and>
       (maxRequestsPerIP \<le> length (requests pruned) \<longrightarrow>
          answer = RateDenied
                     (''Rate limit exceeded: '' @ nat_to_string (length (requests pruned))
                        @ ''/'' @ nat_to_string maxRequestsPerIP @ '' requests per hour'')
                     (Some (Min (set (requests pruned)) + windowMs)) False \<and>
          suspiciousIPs st' = insert ip (suspiciousIPs st) \<and>
          bannedIPs st' = bannedIPs st \<and>
          domainTracker st' = domainTracker st \<and>
          abuseReports st' =
            abuseReports (reportAbuse st ip ''Rate limit exceeded'' NoMetadata now) \<and>
          last (abuseReports st') =
            \<lparr> reportTimestamp = now, reportIp = ip, reportReason = ''Rate limit exceeded'',
              reportMetadata = NoMetadata, reportSeverity = MEDIUM \<rparr>) \<and>
       (length (requests pruned) < maxRequestsPerIP \<and>
        maxFailedAttempts \<le> length (failures pruned) \<longrightarrow>
          answer = RateDenied
                     (''Too many failed attempts: '' @ nat_to_string (length (failures pruned))
                        @ ''/'' @ nat_to_string maxFailedAttempts)
                     None True \<and>
          bannedIPs st' = insert ip (bannedIPs st) \<and>
          suspiciousIPs st' = suspiciousIPs st \<and>
          domainTracker st' = domainTracker st \<and>
          abuseReports st' = abuseReports st) \<and>
       (length (requests pruned) < maxRequestsPerIP \<and>
        length (failures pruned) < maxFailedAttempts \<longrightarrow>
          suspiciousIPs st' = suspiciousIPs st \<and>
          bannedIPs st' = bannedIPs st \<and>
          abuseReports st' = abuseReports st \<and>
          (\<not> domainGiven domain \<longrightarrow>
             domainTracker st' = domainTracker st \<and>
             answer = RateAllowed (int maxRequestsPerIP - int (length (requests pruned)))) \<and>
          (domainGiven domain \<longrightarrow>
             (let domainKey = ''domain_'' @ the domain;
                  domainPruned =
                    \<lparr> domainRequests =
                        filter (inWindow now)
                          (domainRequests (domainEntry (domainTracker st) domainKey)) \<rparr>
              in domainTracker st' = (domainTracker st)(domainKey \<mapsto> domainPruned) \<and>
                 answer =
                   (if maxRequestsPerDomain \<le> length (domainRequests domainPruned)
                    then RateDenied
                           (''Domain rate limit exceeded: ''
                              @ nat_to_string (length (domainRequests domainPruned)) @ ''/''
                              @ nat_to_string maxRequestsPerDomain
                              @ '' requests per hour for '' @ the domain)
                           None False
                    else RateAllowed
                           (int maxRequestsPerIP - int (length (requests pruned)))))))) \<and>
   noTimestampAdded st (snd (checkRateLimit st ip domain now)) \<and>
   noTimestampAdded st (cleanOldEntries st now) \<and>
   noTimestampAdded st (banIP st ip reason now) \<and>
   noTimestampAdded st (unbanIP st ip) \<and>
   noTimestampAdded st (flagSuspiciousIP st ip reason now) \<and>
   noTimestampAdded st (reportAbuse st ip reason meta now) \<and>
   suspiciousIPs st \<subseteq> suspiciousIPs (snd (checkRateLimit st ip domain now)) \<and>
   suspiciousIPs (snd (checkRateLimit st ip domain now)) \<subseteq> insert ip (suspiciousIPs st) \<and>
   bannedIPs st \<subseteq> bannedIPs (snd (checkRateLimit st ip domain now)) \<and>
   bannedIPs (snd (checkRateLimit st ip domain now)) \<subseteq> insert ip (bannedIPs st) \<and>
   (\<forall>remaining. fst (checkRateLimit st ip domain now) = RateAllowed remaining \<longrightarrow>
      suspiciousIPs (snd (checkRateLimit st ip domain now)) = suspiciousIPs st \<and>
      bannedIPs (snd (checkRateLimit st ip domain now)) = bannedIPs st \<and>
      abuseReports (snd (checkRateLimit st ip domain now)) = abuseReports st) \<and>
   bannedIPs (banIP st ip reason now) = insert ip (bannedIPs st) \<and>
   bannedIPs (unbanIP st ip) = bannedIPs st - {ip} \<and>
   suspiciousIPs (unbanIP st ip) = suspiciousIPs st - {ip} \<and>
   requests (ipEntry (ipTracker (recordRequest st ip domain now)) (''ip_'' @ ip))
     = requests (ipEntry (ipTracker st) (''ip_'' @ ip)) @ [now] \<and>
   failures (ipEntry (ipTracker (recordFailure st ip reason now)) (''ip_'' @ ip))
     = failures (ipEntry (ipTracker st) (''ip_'' @ ip)) @ [now]"
  unfolding Let_def ip_data.select_convs domain_data.select_convs
  apply (intro conjI impI allI; (elim conjE)?)
  subgoal by (rule checkRateLimit_tracker_exact)
  subgoal by (simp add: checkRateLimit_request_cap)
  subgoal by (simp add: checkRateLimit_request_cap)
  subgoal by (simp add: checkRateLimit_request_cap)
  subgoal by (simp add: checkRateLimit_request_cap)
  subgoal by (simp add: checkRateLimit_request_cap flagSuspiciousIP_def reportAbuse_def Let_def)
  subgoal
    by (simp add: checkRateLimit_request_cap flagSuspiciousIP_def reportAbuse_def Let_def
        calculateSeverity_rate_limit)
  subgoal by (simp add: checkRateLimit_failure_cap)
  subgoal by (simp add: checkRateLimit_failure_cap)
  subgoal by (simp add: checkRateLimit_failure_cap)
  subgoal by (simp add: checkRateLimit_failure_cap)
  subgoal by (simp add: checkRateLimit_failure_cap)
  subgoal by (cases "domainGiven domain") (simp_all add: checkRateLimit_domain checkRateLimit_no_domain)
  subgoal by (cases "domainGiven domain") (simp_all add: checkRateLimit_domain checkRateLimit_no_domain)
  subgoal by (cases "domainGiven domain") (simp_all add: checkRateLimit_domain checkRateLimit_no_domain)
  subgoal by (simp add: checkRateLimit_no_domain)
  subgoal by (simp add: checkRateLimit_no_domain)
  subgoal by (simp add: checkRateLimit_domain)
  subgoal by (simp add: checkRateLimit_domain)
  subgoal by (rule checkRateLimit_noTimestampAdded)
  subgoal by (rule cleanOldEntries_noTimestampAdded)
  subgoal by (rule banIP_noTimestampAdded)
  subgoal by (rule unbanIP_noTimestampAdded)
  subgoal by (simp add: noTimestampAdded_def)
  subgoal by (simp add: noTimestampAdded_def)
  subgoal using checkRateLimit_sets [of st ip domain now] by simp
  subgoal using checkRateLimit_sets [of st ip domain now] by simp
  subgoal using checkRateLimit_sets [of st ip domain now] by simp
  subgoal using checkRateLimit_sets [of st ip domain now] by simp
  subgoal using checkRateLimit_allowed by blast
  subgoal using checkRateLimit_allowed by blast
  subgoal using checkRateLimit_allowed by blast
  subgoal by (simp add: banIP_def)
  subgoal by (simp add: unbanIP_def)
  subgoal by (simp add: unbanIP_def)
  subgoal by (simp add: recordRequest_def Let_def)
  subgoal by (simp add: recordFailure_def Let_def)
  done

theorem checkRateLimit_effects_witness:
  "ipTracker initial_abuse_state ''ip_10.0.0.2'' = None \<and>
   ipTracker (snd (checkRateLimit initial_abuse_state ''10.0.0.2'' (Some ''example.com'') 1000))
      ''ip_10.0.0.2'' = Some \<lparr> requests = [], failures = [] \<rparr> \<and>
   domainTracker (snd (checkRateLimit initial_abuse_state ''10.0.0.2'' (Some ''example.com'')
      1000)) ''domain_example.com'' = Some \<lparr> domainRequests = [] \<rparr> \<and>
   fst (checkRateLimit initial_abuse_state ''10.0.0.2'' (Some ''example.com'') 1000)
     = RateAllowed 100 \<and>
   bannedIPs (snd (checkRateLimit initial_abuse_state ''10.0.0.2'' (Some ''example.com'') 1000))
     = bannedIPs initial_abuse_state \<and>
   ''10.0.0.1'' \<notin> bannedIPs sample_failures_state \<and>
   fst (checkRateLimit sample_failures_state ''10.0.0.1'' None 1000)
     = RateDenied ''Too many failed attempts: 10/10'' None True \<and>
   bannedIPs (snd (checkRateLimit sample_failures_state ''10.0.0.1'' None 1000))
     = insert ''10.0.0.1'' (bannedIPs sample_failures_state) \<and>
   ''10.0.0.3'' \<notin> suspiciousIPs sample_requests_state \<and>
   fst (checkRateLimit sample_requests_state ''10.0.0.3'' None 1000)
     = RateDenied ''Rate limit exceeded: 100/100 requests per hour'' (Some 3600400) False \<and>
   suspiciousIPs (snd (checkRateLimit sample_requests_state ''10.0.0.3'' None 1000))
     = insert ''10.0.0.3'' (suspiciousIPs sample_requests_state) \<and>
   last (abuseReports (snd (checkRateLimit sample_requests_state ''10.0.0.3'' None 1000)))
     = \<lparr> reportTimestamp = 1000, reportIp = ''10.0.0.3'', reportReason = ''Rate limit exceeded'',
         reportMetadata = NoMetadata, reportSeverity = MEDIUM \<rparr>"
proof -
  note fresh = checkRateLimit_effects [where st = initial_abuse_state and ip = "''10.0.0.2''"
      and domain = "Some ''example.com''" and now = 1000, unfolded Let_def
      ip_data.select_convs domain_data.select_convs]
  have f0: "ipTracker initial_abuse_state ''ip_10.0.0.2'' = None"
    by (simp add: initial_abuse_state_def)
  have f1: "filter (inWindow 1000)
              (requests (ipEntry (ipTracker initial_abuse_state) ''ip_10.0.0.2'')) = []"
    "filter (inWindow 1000)
              (failures (ipEntry (ipTracker initial_abuse_state) ''ip_10.0.0.2'')) = []"
    "filter (inWindow 1000)
       (domainRequests (domainEntry (domainTracker initial_abuse_state) ''domain_example.com''))
       = []"
    by (simp_all add: initial_abuse_state_def ipEntry_def domainEntry_def)
  have f2: "domainGiven (Some ''example.com'')" by simp
  from fresh [THEN conjunct1, THEN conjunct1] f1
  have a1: "ipTracker (snd (checkRateLimit initial_abuse_state ''10.0.0.2''
      (Some ''example.com'') 1000)) ''ip_10.0.0.2'' = Some \<lparr> requests = [], failures = [] \<rparr>"
    by simp
  from fresh [THEN conjunct1] f1 f2
  have a2: "domainTracker (snd (checkRateLimit initial_abuse_state ''10.0.0.2''
        (Some ''example.com'') 1000)) ''domain_example.com'' = Some \<lparr> domainRequests = [] \<rparr> \<and>
      fst (checkRateLimit initial_abuse_state ''10.0.0.2'' (Some ''example.com'') 1000)
        = RateAllowed 100 \<and>
      bannedIPs (snd (checkRateLimit initial_abuse_state ''10.0.0.2'' (Some ''example.com'') 1000))
        = bannedIPs initial_abuse_state"
    by (simp add: maxRequestsPerIP_def maxFailedAttempts_def maxRequestsPerDomain_def)
  note failing = checkRateLimit_effects [where st = sample_failures_state and ip = "''10.0.0.1''"
      and domain = None and now = 1000, unfolded Let_def
      ip_data.select_convs domain_data.select_convs, THEN conjunct1]
  have g0: "''10.0.0.1'' \<notin> bannedIPs sample_failures_state"
    by (simp add: sample_failures_state_def initial_abuse_state_def)
  have g1: "length (filter (inWindow 1000)
              (requests (ipEntry (ipTracker sample_failures_state) ''ip_10.0.0.1''))) = 0"
    "length (filter (inWindow 1000)
              (failures (ipEntry (ipTracker sample_failures_state) ''ip_10.0.0.1''))) = 10"
    by code_simp+
  have g2: "nat_to_string 10 = ''10''" by code_simp
  from failing g1 g2
  have b1: "fst (checkRateLimit sample_failures_state ''10.0.0.1'' None 1000)
        = RateDenied ''Too many failed attempts: 10/10'' None True \<and>
      bannedIPs (snd (checkRateLimit sample_failures_state ''10.0.0.1'' None 1000))
        = insert ''10.0.0.1'' (bannedIPs sample_failures_state)"
    by (simp add: maxRequestsPerIP_def maxFailedAttempts_def)
  note flooding = checkRateLimit_effects [where st = sample_requests_state and ip = "''10.0.0.3''"
      and domain = None and now = 1000, unfolded Let_def
      ip_data.select_convs domain_data.select_convs, THEN conjunct1]
  have h0: "''10.0.0.3'' \<notin> suspiciousIPs sample_requests_state"
    by (simp add: sample_requests_state_def initial_abuse_state_def)
  have h1: "length (filter (inWindow 1000)
              (requests (ipEntry (ipTracker sample_requests_state) ''ip_10.0.0.3''))) = 100"
    by code_simp
  have h2: "Min (set (filter (inWindow 1000)
              (requests (ipEntry (ipTracker sample_requests_state) ''ip_10.0.0.3'')))) = 400"
    by code_simp
  have h3: "nat_to_string 100 = ''100''" by code_simp
  have h4: "maxRequestsPerIP \<le> length (filter (inWindow 1000)
              (requests (ipEntry (ipTracker sample_requests_state) (''ip_'' @ ''10.0.0.3''))))"
    using h1 by (simp add: maxRequestsPerIP_def)
  note capped = flooding [THEN conjunct2, THEN conjunct1, THEN mp, OF h4]
  from capped [THEN conjunct1] h1 h2 h3
  have c1: "fst (checkRateLimit sample_requests_state ''10.0.0.3'' None 1000)
        = RateDenied ''Rate limit exceeded: 100/100 requests per hour'' (Some 3600400) False"
    by (simp add: maxRequestsPerIP_def windowMs_def)
  note c2 = capped [THEN conjunct2, THEN conjunct1]
  note c3 = capped [THEN conjunct2, THEN conjunct2, THEN conjunct2, THEN conjunct2,
      THEN conjunct2]
  from f0 a1 a2 g0 b1 h0 c1 c2 c3 show ?thesis by simp
qed

section \<open>Escalation to a ban after blacklist failures\<close>

lemma inWindow_earlier: "now \<le> T \<Longrightarrow> inWindow T t \<Longrightarrow> inWindow now t"
  by (simp add: inWindow_def)

lemma filter_inWindow_prune:
  "now \<le> T \<Longrightarrow> filter (inWindow T) (filter (inWindow now) ts) = filter (inWindow T) ts"
  by (induction ts) (auto dest: inWindow_earlier)

lemma filter_inWindow_cutoff:
  "now \<le> T \<Longrightarrow> filter (inWindow T) (filter (\<lambda>time. time > now - windowMs) ts) = filter (inWindow T) ts"
  by (induction ts) (auto simp: inWindow_def)

lemma cleanOldEntries_failures:
  "failures (ipEntry (ipTracker (cleanOldEntries st now)) key) =
     filter (\<lambda>time. time > now - windowMs) (failures (ipEntry (ipTracker st) key))"
  by (auto simp: cleanOldEntries_def Let_def ipEntry_def split: option.splits)

lemma recordRequest_failures:
  "failures (ipEntry (ipTracker (recordRequest st ip domain now)) key) =
     failures (ipEntry (ipTracker st) key)"
  by (simp add: recordRequest_def Let_def)

lemma recordFailure_tracker:
  "failures (ipEntry (ipTracker (recordFailure st ip reason now)) key) =
     (if key = ''ip_'' @ ip then failures (ipEntry (ipTracker st) key) @ [now]
      else failures (ipEntry (ipTracker st) key))"
  by (simp add: recordFailure_def Let_def)

lemma recentFailures_recordFailure:
  "recentFailures (recordFailure st ip reason now) ip T =
     recentFailures st ip T @ (if inWindow T now then [now] else [])"
  by (simp add: recentFailures_def recordFailure_tracker)

lemma recentFailures_mono:
  assumes "clockUpTo T op"
  shows "length (recentFailures st ip T) \<le> length (recentFailures (apply_op st op) ip T)"
proof (cases op)
  case (OpCheckRateLimit ip' domain now)
  with assms have "now \<le> T" by simp
  then show ?thesis
    unfolding OpCheckRateLimit recentFailures_def apply_op.simps checkRateLimit_ipTracker
    by (simp add: filter_inWindow_prune del: filter_filter)
next
  case (OpRecordRequest ip' domain now)
  then show ?thesis by (simp add: recentFailures_def recordRequest_failures)
next
  case (OpRecordFailure ip' reason now)
  then show ?thesis by (simp add: recentFailures_def recordFailure_tracker)
next
  case (OpCleanOldEntries now)
  with assms have "now \<le> T" by simp
  then show ?thesis
    unfolding OpCleanOldEntries recentFailures_def apply_op.simps cleanOldEntries_failures
    by (simp add: filter_inWindow_cutoff del: filter_filter)
next
  case (OpBanIP ip' reason now)
  then show ?thesis by (simp add: recentFailures_def banIP_def)
next
  case (OpUnbanIP ip')
  then show ?thesis by (simp add: recentFailures_def unbanIP_def)
qed

lemma recentFailures_run_mono:
  "\<forall>op \<in> set ops. clockUpTo T op \<Longrightarrow>
   length (recentFailures st ip T) \<le> length (recentFailures (run_ops st ops) ip T)"
proof (induction ops arbitrary: st)
  case Nil
  then show ?case by (simp add: run_ops_def)
next
  case (Cons op ops)
  have "length (recentFailures st ip T) \<le> length (recentFailures (apply_op st op) ip T)"
    using Cons.prems by (intro recentFailures_mono) simp
  also have "\<dots> \<le> length (recentFailures (run_ops (apply_op st op) ops) ip T)"
    using Cons.prems by (intro Cons.IH) simp
  finally show ?case by (simp add: run_ops_def)
qed

lemma calculateSeverity_blacklist_report:
  "calculateSeverity ''Multiple blacklist bypass attempts'' = HIGH"
  by code_simp

lemma recordFailure_bans:
  assumes "str_includes reason ''blacklist''"
    and "2 \<le> length (recentFailures st ip now)"
  shows "ip \<in> bannedIPs (recordFailure st ip reason now) \<and>
         abuseReports (recordFailure st ip reason now) \<noteq> [] \<and>
         last (abuseReports (recordFailure st ip reason now)) =
           \<lparr> reportTimestamp = now, reportIp = ip,
             reportReason = ''Multiple blacklist bypass attempts'',
             reportMetadata = BlacklistAttempts reason (length (recentFailures st ip now) + 1),
             reportSeverity = HIGH \<rparr>"
proof -
  have w: "inWindow now now" by (simp add: inWindow_def windowMs_def)
  show ?thesis
    using assms w
    by (simp add: recordFailure_def Let_def recentFailures_def maxBlacklistAttempts_def
        reportAbuse_def calculateSeverity_blacklist_report)
qed

lemma banned_persists:
  "ip \<in> bannedIPs st \<Longrightarrow> \<not> isUnbanOf ip op \<Longrightarrow> ip \<in> bannedIPs (apply_op st op)"
proof (cases op)
  case (OpCheckRateLimit ip' domain now)
  assume "ip \<in> bannedIPs st"
  then show ?thesis
    using checkRateLimit_sets [of st ip' domain now] OpCheckRateLimit by auto
next
  case (OpRecordRequest ip' domain now)
  assume "ip \<in> bannedIPs st"
  then show ?thesis using OpRecordRequest by (simp add: recordRequest_def Let_def)
next
  case (OpRecordFailure ip' reason now)
  assume "ip \<in> bannedIPs st"
  then show ?thesis using OpRecordFailure by (simp add: recordFailure_def Let_def)
next
  case (OpCleanOldEntries now)
  assume "ip \<in> bannedIPs st"
  then show ?thesis using OpCleanOldEntries by (simp add: cleanOldEntries_def Let_def)
next
  case (OpBanIP ip' reason now)
  assume "ip \<in> bannedIPs st"
  then show ?thesis using OpBanIP by (simp add: banIP_def)
next
  case (OpUnbanIP ip')
  assume "ip \<in> bannedIPs st" "\<not> isUnbanOf ip op"
  then show ?thesis using OpUnbanIP by (auto simp: unbanIP_def)
qed

lemma banned_persists_run:
  "ip \<in> bannedIPs st \<Longrightarrow> \<forall>op \<in> set ops. \<not> isUnbanOf ip op \<Longrightarrow>
   ip \<in> bannedIPs (run_ops st ops)"
proof (induction ops arbitrary: st)
  case Nil
  then show ?case by (simp add: run_ops_def)
next
  case (Cons op ops)
  from Cons.prems have "ip \<in> bannedIPs (apply_op st op)"
    by (intro banned_persists) simp_all
  with Cons.IH [of "apply_op st op"] Cons.prems(2) show ?case
    by (simp add: run_ops_def)
qed

text \<open>
  Claim C6, as stated, has every admission call of the banned caller denied. After the
  three blacklist failures of the sample run the caller is in the ban set, yet
  \<open>checkRateLimit\<close> admits the caller (it does not read the ban set), and
  \<open>POST /scrape\<close> serves the caller (it has no ban check).
\<close>

theorem banned_caller_admitted_counterexample:
  "''10.0.0.1'' \<in> bannedIPs sample_blacklist_run \<and>
   fst (checkRateLimit sample_blacklist_run ''10.0.0.1'' (Some ''example.com'') 3000)
     = RateAllowed 100 \<and>
   reqIp (sample_request ''https://example.com/docs'') = ''10.0.0.1'' \<and>
   status (fst (scrapeRoute ((sample_gateway {})\<lparr> abuse := sample_blacklist_run \<rparr>)
                  (sample_env ScrapeSuccess) (sample_request ''https://example.com/docs'')))
     = 200"
  by code_simp

text \<open>
  Claim C6, amended: let a caller have three failures recorded at \<open>t1\<close>, \<open>t2\<close> and
  \<open>t3\<close>, the first two less than one window before the third, the third with a reason
  containing \<open>blacklist\<close>, with any operations in between whose clocks do not pass
  \<open>t3\<close>, and from any starting state (so whatever the failure count is). Then the
  third recording bans the caller and files a HIGH report \<open>Multiple blacklist bypass
  attempts\<close>. After any later operations other than an unban of this caller,
  \<open>checkIPStatus\<close> answers banned, and \<open>POST /test-scrape\<close> from this caller is
  answered 403 at the ban check, with no other stage run and the state unchanged.
\<close>

theorem blacklist_failures_ban:
  assumes "str_includes r3 ''blacklist''"
    and "t3 - t1 < windowMs" and "t3 - t2 < windowMs"
    and "\<forall>op \<in> set (ops1 @ ops2). clockUpTo t3 op"
    and "\<forall>op \<in> set later. \<not> isUnbanOf ip op"
    and "st3 = recordFailure (run_ops (recordFailure (run_ops (recordFailure st ip r1 t1) ops1)
                 ip r2 t2) ops2) ip r3 t3"
  shows "ip \<in> bannedIPs st3 \<and>
         abuseReports st3 \<noteq> [] \<and>
         reportIp (last (abuseReports st3)) = ip \<and>
         reportReason (last (abuseReports st3)) = ''Multiple blacklist bypass attempts'' \<and>
         reportSeverity (last (abuseReports st3)) = HIGH \<and>
         checkIPStatus (run_ops st3 later) ip = (StatusBanned, ''IP banned due to abuse'') \<and>
         (\<forall>gs env req. abuse gs = run_ops st3 later \<and> reqIp req = ip \<longrightarrow>
            testScrapeRoute gs env req =
              ((reply 403 ''Access denied'')\<lparr> details := Some ''IP banned due to abuse'' \<rparr>,
               gs, [BanCheck]))"
proof -
  let ?s1 = "recordFailure st ip r1 t1"
  let ?sA = "run_ops ?s1 ops1"
  let ?s2 = "recordFailure ?sA ip r2 t2"
  let ?sB = "run_ops ?s2 ops2"
  have ops1: "\<forall>op \<in> set ops1. clockUpTo t3 op" and ops2: "\<forall>op \<in> set ops2. clockUpTo t3 op"
    using assms(4) by auto
  have w1: "inWindow t3 t1" and w2: "inWindow t3 t2"
    using assms(2,3) by (simp_all add: inWindow_def)
  have "1 \<le> length (recentFailures ?s1 ip t3)"
    using w1 by (simp add: recentFailures_recordFailure)
  also have "\<dots> \<le> length (recentFailures ?sA ip t3)"
    by (rule recentFailures_run_mono [OF ops1])
  finally have "2 \<le> length (recentFailures ?s2 ip t3)"
    using w2 by (simp add: recentFailures_recordFailure)
  also have "\<dots> \<le> length (recentFailures ?sB ip t3)"
    by (rule recentFailures_run_mono [OF ops2])
  finally have two: "2 \<le> length (recentFailures ?sB ip t3)" .
  note ban = recordFailure_bans [OF assms(1) two]
  from ban have b3: "ip \<in> bannedIPs st3" unfolding assms(6) by simp
  have later: "ip \<in> bannedIPs (run_ops st3 later)"
    by (rule banned_persists_run [OF b3 assms(5)])
  have denied: "\<forall>gs env req. abuse gs = run_ops st3 later \<and> reqIp req = ip \<longrightarrow>
            testScrapeRoute gs env req =
              ((reply 403 ''Access denied'')\<lparr> details := Some ''IP banned due to abuse'' \<rparr>,
               gs, [BanCheck])"
    using later by (auto intro: banned_request_denied)
  from ban b3 later denied show ?thesis
    unfolding assms(6) by (simp add: checkIPStatus_def)
qed

theorem blacklist_failures_ban_witness:
  "str_includes ''Blacklisted: Parent domain in blacklist'' ''blacklist'' \<and>
   ''10.0.0.1'' \<in> bannedIPs sample_blacklist_run \<and>
   length (failures (ipEntry (ipTracker sample_blacklist_run) ''ip_10.0.0.1'')) = 3 \<and>
   reportSeverity (last (abuseReports sample_blacklist_run)) = HIGH \<and>
   checkIPStatus
     (run_ops sample_blacklist_run
        [OpCleanOldEntries 99999999, OpCheckRateLimit ''10.0.0.1'' None 99999999])
     ''10.0.0.1'' = (StatusBanned, ''IP banned due to abuse'')"
proof -
  have r: "str_includes ''Blacklisted: Parent domain in blacklist'' ''blacklist''"
    by code_simp
  have n: "length (failures (ipEntry (ipTracker sample_blacklist_run) ''ip_10.0.0.1'')) = 3"
    by code_simp
  have w: "(2000::int) - 0 < windowMs" "(2000::int) - 1000 < windowMs"
    by (simp_all add: windowMs_def)
  have c: "\<forall>op \<in> set ([OpCheckRateLimit ''10.0.0.1'' (Some ''www.facebook.com'') 1000]
      @ [OpCheckRateLimit ''10.0.0.1'' (Some ''www.facebook.com'') 2000]). clockUpTo 2000 op"
    by simp
  have u: "\<forall>op \<in> set [OpCleanOldEntries 99999999, OpCheckRateLimit ''10.0.0.1'' None 99999999].
      \<not> isUnbanOf ''10.0.0.1'' op"
    by simp
  from blacklist_failures_ban [OF r w c u sample_blacklist_run_def] r n
  show ?thesis by simp
qed

section \<open>The blacklist check\<close>

lemma split_on_nonempty [simp]: "split_on c s \<noteq> []"
  by (induction s) (auto split: list.splits)

lemma split_on_Cons_other:
  "x \<noteq> c \<Longrightarrow> split_on c (x # xs) = (x # hd (split_on c xs)) # tl (split_on c xs)"
  by (cases "split_on c xs") simp_all

lemma split_on_append: "split_on c (p @ c # d) = split_on c p @ split_on c d"
proof (induction p)
  case Nil
  then show ?case by simp
next
  case (Cons x p)
  show ?case
  proof (cases "x = c")
    case True
    with Cons show ?thesis by simp
  next
    case False
    have ne: "split_on c p \<noteq> []" by simp
    from False Cons ne show ?thesis
      by (simp add: split_on_Cons_other del: split_on.simps)
  qed
qed

lemma join_split: "join_dot (split_on CHR ''.'' s) = s"
proof (induction s)
  case Nil
  then show ?case by simp
next
  case (Cons x s)
  obtain w ws where ws: "split_on CHR ''.'' s = w # ws"
    by (cases "split_on CHR ''.'' s") simp_all
  show ?case
  proof (cases "x = CHR ''.''")
    case True
    with Cons ws show ?thesis by simp
  next
    case False
    with Cons ws show ?thesis by (cases ws) simp_all
  qed
qed

lemma join_dot_append:
  "xs \<noteq> [] \<Longrightarrow> ys \<noteq> [] \<Longrightarrow> join_dot (xs @ ys) = join_dot xs @ CHR ''.'' # join_dot ys"
proof (induction xs rule: join_dot.induct)
  case 1
  then show ?case by simp
next
  case (2 w)
  then show ?case by (cases ys) simp_all
next
  case (3 w v ws)
  then show ?case by simp
qed

lemma dot_in_join: "2 \<le> length ws \<Longrightarrow> CHR ''.'' \<in> set (join_dot ws)"
  by (induction ws rule: join_dot.induct) simp_all

lemma length_split_on: "length (split_on c s) = Suc (count_list s c)"
  by (induction s) (auto split: list.splits)

lemma split_length_ge2: "2 \<le> length (split_on c s) \<longleftrightarrow> c \<in> set s"
  using count_list_0_iff [of s c] by (auto simp: length_split_on)

lemma parent_suffix_iff:
  "(\<exists>i. 0 < i \<and> i < length (split_on CHR ''.'' s) - 1 \<and>
        join_dot (drop i (split_on CHR ''.'' s)) = d)
   \<longleftrightarrow> parentDomainOf d s"
proof
  assume "\<exists>i. 0 < i \<and> i < length (split_on CHR ''.'' s) - 1 \<and>
        join_dot (drop i (split_on CHR ''.'' s)) = d"
  then obtain i where i: "0 < i" "i < length (split_on CHR ''.'' s) - 1"
    and d: "join_dot (drop i (split_on CHR ''.'' s)) = d" by blast
  let ?parts = "split_on CHR ''.'' s"
  have tk: "take i ?parts \<noteq> []" and dr: "drop i ?parts \<noteq> []" using i by auto
  have "s = join_dot (take i ?parts @ drop i ?parts)" by (simp add: join_split)
  also have "\<dots> = join_dot (take i ?parts) @ CHR ''.'' # d"
    using join_dot_append [OF tk dr] d by simp
  finally have "suffix (CHR ''.'' # d) s" by (metis suffixI)
  moreover have "CHR ''.'' \<in> set d"
    using dot_in_join [of "drop i ?parts"] i d by simp
  ultimately show "parentDomainOf d s" by (simp add: parentDomainOf_def)
next
  assume "parentDomainOf d s"
  then obtain p where s: "s = p @ CHR ''.'' # d" and dot: "CHR ''.'' \<in> set d"
    by (auto simp: parentDomainOf_def suffix_def)
  let ?i = "length (split_on CHR ''.'' p)"
  have parts: "split_on CHR ''.'' s = split_on CHR ''.'' p @ split_on CHR ''.'' d"
    unfolding s by (rule split_on_append)
  have "0 < ?i" by simp
  moreover have "?i < length (split_on CHR ''.'' s) - 1"
    using dot split_length_ge2 [of "CHR ''.''" d] by (simp add: parts)
  moreover have "join_dot (drop ?i (split_on CHR ''.'' s)) = d"
    by (simp add: parts join_split)
  ultimately show "\<exists>i. 0 < i \<and> i < length (split_on CHR ''.'' s) - 1 \<and>
        join_dot (drop i (split_on CHR ''.'' s)) = d" by blast
qed

lemma parentMatch_iff:
  "parentMatch ds parts \<noteq> None \<longleftrightarrow> (\<exists>i < length parts - 1. join_dot (drop i parts) \<in> ds)"
  by (auto simp: parentMatch_def find_None_iff)

lemma parentMatch_Some_in: "parentMatch ds parts = Some d \<Longrightarrow> d \<in> ds"
  by (auto simp: parentMatch_def dest: find_Some_iff [THEN iffD1])

lemma isBlocked_iff:
  "isBlocked (isBlacklisted ds (Some u)) \<longleftrightarrow> blacklistedBySpec ds (toLowerCase (hostname u))"
proof -
  let ?s = "toLowerCase (hostname u)"
  let ?parts = "split_on CHR ''.'' ?s"
  have "isBlocked (isBlacklisted ds (Some u)) \<longleftrightarrow> ?s \<in> ds \<or> parentMatch ds ?parts \<noteq> None"
    by (auto simp: isBlacklisted_def Let_def split: option.splits)
  also have "\<dots> \<longleftrightarrow> ?s \<in> ds \<or> (\<exists>i < length ?parts - 1. join_dot (drop i ?parts) \<in> ds)"
    by (simp only: parentMatch_iff)
  also have "\<dots> \<longleftrightarrow> ?s \<in> ds \<or>
      (\<exists>d \<in> ds. \<exists>i. 0 < i \<and> i < length ?parts - 1 \<and> join_dot (drop i ?parts) = d)"
    (is "?A \<or> ?B \<longleftrightarrow> ?A \<or> ?C")
  proof -
    have "?B \<Longrightarrow> ?A \<or> ?C"
    proof -
      assume ?B
      then obtain i where i: "i < length ?parts - 1" "join_dot (drop i ?parts) \<in> ds" by blast
      show "?A \<or> ?C"
      proof (cases "i = 0")
        case True
        with i show ?thesis by (simp add: join_split)
      next
        case False
        with i show ?thesis by auto
      qed
    qed
    moreover have "?C \<Longrightarrow> ?B" by auto
    ultimately show ?thesis by blast
  qed
  also have "\<dots> \<longleftrightarrow> blacklistedBySpec ds ?s"
    unfolding parent_suffix_iff blacklistedBySpec_def ..
  finally show ?thesis .
qed

lemma shop_amazon_blocked:
  "isBlacklisted (set staticBlacklist)
     (Some \<lparr> protocol = ''https:'', hostname = ''shop.amazon.com'', pathname = ''/deals'' \<rparr>)
     = Blocked ''Parent domain in blacklist'' (Some ''amazon.com'') \<and>
   ''shop.amazon.com'' \<notin> set staticBlacklist"
  by code_simp

lemma validateUrl_blacklisted:
  assumes "isBlocked (isBlacklisted (domains bm) (Some u))"
  shows "\<exists>v. validateUrl bm (Some u) fetched now = Inr (v, bm) \<and> \<not> valid v \<and>
             prefix ''Blacklisted: '' (validationReason v)"
  using assms
  by (cases "isBlacklisted (domains bm) (Some u)") (simp_all add: validateUrl_def)

lemma validateUrl_not_blacklisted:
  assumes "\<not> isBlocked (isBlacklisted (domains bm) (Some u))"
  shows "validateUrl bm (Some u) fetched now =
           (case checkRobotsTxt bm (Some u) fetched now of
              Inl message \<Rightarrow> Inl message
            | Inr (robotsCheck, bm') \<Rightarrow>
                Inr (\<lparr> valid = allowed robotsCheck,
                       validationReason = (if allowed robotsCheck then ''URL validated''
                                           else robotsReason robotsCheck) \<rparr>, bm'))"
  using assms
  by (cases "isBlacklisted (domains bm) (Some u)")
    (simp_all add: validateUrl_def split: prod.splits sum.splits)

text \<open>
  Claim C7: \<open>isBlacklisted\<close> blocks a parsed URL exactly when its lower-cased host name
  is in the set or has a parent domain in the set. \<open>shop.amazon.com\<close> is blocked
  through its parent \<open>amazon.com\<close> and is not itself an entry of the static list. In
  \<open>validateUrl\<close> a blacklisted host gives an invalid result with a \<open>Blacklisted:\<close>
  reason, no robots.txt check and the manager's state unchanged, and any other host
  passes on to the robots.txt check, which then decides: \<open>validateUrl\<close> rejects when
  that check rejects, is valid exactly when the check allows, and leaves the state the
  check leaves.
\<close>

theorem blacklist_check_exact:
  "(isBlocked (isBlacklisted ds (Some u)) \<longleftrightarrow>
      blacklistedBySpec ds (toLowerCase (hostname u))) \<and>
   isBlacklisted (set staticBlacklist)
       (Some \<lparr> protocol = ''https:'', hostname = ''shop.amazon.com'', pathname = ''/deals'' \<rparr>)
     = Blocked ''Parent domain in blacklist'' (Some ''amazon.com'') \<and>
   ''shop.amazon.com'' \<notin> set staticBlacklist \<and>
   (blacklistedBySpec (domains bm) (toLowerCase (hostname u)) \<longrightarrow>
      (\<exists>v. validateUrl bm (Some u) fetched now = Inr (v, bm) \<and> \<not> valid v \<and>
           prefix ''Blacklisted: '' (validationReason v))) \<and>
   (\<not> blacklistedBySpec (domains bm) (toLowerCase (hostname u)) \<longrightarrow>
      validateUrl bm (Some u) fetched now =
        (case checkRobotsTxt bm (Some u) fetched now of
           Inl message \<Rightarrow> Inl message
         | Inr (robotsCheck, bm') \<Rightarrow>
             Inr (\<lparr> valid = allowed robotsCheck,
                    validationReason = (if allowed robotsCheck then ''URL validated''
                                        else robotsReason robotsCheck) \<rparr>, bm')))"
  using isBlocked_iff [of ds u] isBlocked_iff [of "domains bm" u] shop_amazon_blocked
    validateUrl_blacklisted [of bm u fetched now]
    validateUrl_not_blacklisted [of bm u fetched now]
  by blast

theorem blacklist_check_witness:
  "blacklistedBySpec (set staticBlacklist) ''shop.amazon.com'' \<and>
   (\<exists>v. validateUrl \<lparr> domains = set staticBlacklist, robotsCache = Map.empty \<rparr>
          (Some \<lparr> protocol = ''https:'', hostname = ''Shop.Amazon.com'', pathname = ''/deals'' \<rparr>)
          FetchError 0
        = Inr (v, \<lparr> domains = set staticBlacklist, robotsCache = Map.empty \<rparr>) \<and>
        \<not> valid v \<and> prefix ''Blacklisted: '' (validationReason v)) \<and>
   \<not> blacklistedBySpec (set staticBlacklist) ''example.com'' \<and>
   map_sum id fst (validateUrl \<lparr> domains = set staticBlacklist, robotsCache = Map.empty \<rparr>
          (Some \<lparr> protocol = ''https:'', hostname = ''example.com'', pathname = ''/docs'' \<rparr>)
          (FetchResponse 404 []) 0)
     = Inr \<lparr> valid = True, validationReason = ''URL validated'' \<rparr> \<and>
   map_sum id fst (validateUrl \<lparr> domains = set staticBlacklist, robotsCache = Map.empty \<rparr>
          (Some \<lparr> protocol = ''http:'', hostname = ''example.com'', pathname = ''/docs'' \<rparr>)
          (FetchResponse 404 []) 0)
     = Inl (invalidProtocolMessage ''http:'')"
proof -
  let ?bm = "\<lparr> domains = set staticBlacklist, robotsCache = Map.empty \<rparr>"
  let ?shop = "\<lparr> protocol = ''https:'', hostname = ''Shop.Amazon.com'', pathname = ''/deals'' \<rparr>"
  let ?ex = "\<lparr> protocol = ''https:'', hostname = ''example.com'', pathname = ''/docs'' \<rparr>"
  let ?plain = "\<lparr> protocol = ''http:'', hostname = ''example.com'', pathname = ''/docs'' \<rparr>"
  have lower: "toLowerCase (hostname ?shop) = ''shop.amazon.com''"
    "toLowerCase (hostname ?ex) = ''example.com''"
    "toLowerCase (hostname ?plain) = ''example.com''"
    by code_simp+
  have b1: "isBlocked (isBlacklisted (set staticBlacklist) (Some ?shop))" by code_simp
  have b2: "\<not> isBlocked (isBlacklisted (set staticBlacklist) (Some ?ex))" by code_simp
  have r: "map_sum id fst (checkRobotsTxt ?bm (Some ?ex) (FetchResponse 404 []) 0)
             = Inr \<lparr> allowed = True, robotsReason = ''No robots.txt found'' \<rparr>"
    by code_simp
  have r': "map_sum id fst (checkRobotsTxt ?bm (Some ?plain) (FetchResponse 404 []) 0)
             = Inl (invalidProtocolMessage ''http:'')"
    by code_simp
  note shop = blacklist_check_exact [where ds = "set staticBlacklist" and u = ?shop
      and bm = ?bm and fetched = FetchError and now = 0]
  note ex = blacklist_check_exact [where ds = "set staticBlacklist" and u = ?ex
      and bm = ?bm and fetched = "FetchResponse 404 []" and now = 0]
  note plain = blacklist_check_exact [where ds = "set staticBlacklist" and u = ?plain
      and bm = ?bm and fetched = "FetchResponse 404 []" and now = 0]
  from shop b1 have s1: "blacklistedBySpec (set staticBlacklist) ''shop.amazon.com''"
    unfolding lower by blast
  from shop s1 have s2: "\<exists>v. validateUrl ?bm (Some ?shop) FetchError 0 = Inr (v, ?bm) \<and>
      \<not> valid v \<and> prefix ''Blacklisted: '' (validationReason v)"
    unfolding lower by simp
  from ex b2 have e1: "\<not> blacklistedBySpec (set staticBlacklist) ''example.com''"
    unfolding lower by blast
  from ex e1 have "validateUrl ?bm (Some ?ex) (FetchResponse 404 []) 0 =
        (case checkRobotsTxt ?bm (Some ?ex) (FetchResponse 404 []) 0 of
           Inl message \<Rightarrow> Inl message
         | Inr (robotsCheck, bm') \<Rightarrow>
             Inr (\<lparr> valid = allowed robotsCheck,
                    validationReason = (if allowed robotsCheck then ''URL validated''
                                        else robotsReason robotsCheck) \<rparr>, bm'))"
    unfolding lower by simp
  with r have e2: "map_sum id fst (validateUrl ?bm (Some ?ex) (FetchResponse 404 []) 0)
      = Inr \<lparr> valid = True, validationReason = ''URL validated'' \<rparr>"
    by (cases "checkRobotsTxt ?bm (Some ?ex) (FetchResponse 404 []) 0") auto
  from plain e1 have "validateUrl ?bm (Some ?plain) (FetchResponse 404 []) 0 =
        (case checkRobotsTxt ?bm (Some ?plain) (FetchResponse 404 []) 0 of
           Inl message \<Rightarrow> Inl message
         | Inr (robotsCheck, bm') \<Rightarrow>
             Inr (\<lparr> valid = allowed robotsCheck,
                    validationReason = (if allowed robotsCheck then ''URL validated''
                                        else robotsReason robotsCheck) \<rparr>, bm'))"
    unfolding lower by simp
  with r' have e3: "map_sum id fst (validateUrl ?bm (Some ?plain) (FetchResponse 404 []) 0)
      = Inl (invalidProtocolMessage ''http:'')"
    by (cases "checkRobotsTxt ?bm (Some ?plain) (FetchResponse 404 []) 0") auto
  from s1 s2 e1 e2 e3 show ?thesis by simp
qed

section \<open>Applicable blocks of robots.txt\<close>

text \<open>
  Claim C8, as stated, lets only the first applicable block contribute \<open>Disallow\<close>
  rules. In the sample file both blocks are applicable, the first block alone allows
  \<open>/b/x\<close>, and the \<open>Disallow: /b\<close> of the second block blocks it.
\<close>

theorem later_block_blocks_counterexample:
  "agentApplicable ''*'' \<and> agentApplicable ''googlebot'' \<and>
   allowed (parseRobotsTxt sample_robots_first_block ''/b/x'') \<and>
   \<not> allowed (parseRobotsTxt sample_robots ''/b/x'')"
  by code_simp

lemma disallow_not_user_agent:
  "startsWith line ''disallow:'' \<Longrightarrow> \<not> startsWith line ''user-agent:''"
  by (cases line) (auto simp: startsWith_def)

lemma currentAgent_Nil [simp]: "currentAgent cur [] = cur"
  by (simp add: currentAgent_def)

lemma currentAgent_Cons [simp]:
  "currentAgent cur (line # ls) =
     currentAgent (if startsWith line ''user-agent:''
                   then agentApplicable (directiveValue line) else cur) ls"
  by (simp add: currentAgent_def)

lemma robotsLoop_iff:
  "robotsLoop cur path ls \<longleftrightarrow>
     (\<exists>pre line rest. ls = pre @ line # rest \<and> currentAgent cur pre \<and>
        startsWith line ''disallow:'' \<and> disallowBlocks line path)"
proof (induction ls arbitrary: cur)
  case Nil
  then show ?case by simp
next
  case (Cons l ls)
  let ?cur = "if startsWith l ''user-agent:'' then agentApplicable (directiveValue l) else cur"
  have head: "(?cur \<and> startsWith l ''disallow:'' \<and> disallowBlocks l path) \<longleftrightarrow>
      (cur \<and> startsWith l ''disallow:'' \<and> disallowBlocks l path)"
    using disallow_not_user_agent [of l] by auto
  have "robotsLoop cur path (l # ls) \<longleftrightarrow>
      (?cur \<and> startsWith l ''disallow:'' \<and> disallowBlocks l path) \<or> robotsLoop ?cur path ls"
    by (auto simp: Let_def)
  also have "\<dots> \<longleftrightarrow> (cur \<and> startsWith l ''disallow:'' \<and> disallowBlocks l path) \<or>
      (\<exists>pre line rest. ls = pre @ line # rest \<and> currentAgent ?cur pre \<and>
        startsWith line ''disallow:'' \<and> disallowBlocks line path)"
    unfolding head Cons.IH [of ?cur] ..
  also have "\<dots> \<longleftrightarrow> (\<exists>pre line rest. l # ls = pre @ line # rest \<and> currentAgent cur pre \<and>
        startsWith line ''disallow:'' \<and> disallowBlocks line path)"
    (is "?L \<longleftrightarrow> ?R")
  proof
    assume ?L
    then show ?R
    proof
      assume "cur \<and> startsWith l ''disallow:'' \<and> disallowBlocks l path"
      then have "l # ls = [] @ l # ls \<and> currentAgent cur [] \<and>
        startsWith l ''disallow:'' \<and> disallowBlocks l path" by simp
      then show ?R by blast
    next
      assume "\<exists>pre line rest. ls = pre @ line # rest \<and> currentAgent ?cur pre \<and>
        startsWith line ''disallow:'' \<and> disallowBlocks line path"
      then obtain pre line rest where "ls = pre @ line # rest" "currentAgent ?cur pre"
        "startsWith line ''disallow:''" "disallowBlocks line path" by blast
      then have "l # ls = (l # pre) @ line # rest \<and> currentAgent cur (l # pre) \<and>
        startsWith line ''disallow:'' \<and> disallowBlocks line path" by simp
      then show ?R by blast
    qed
  next
    assume ?R
    then obtain pre line rest where r: "l # ls = pre @ line # rest" "currentAgent cur pre"
        "startsWith line ''disallow:''" "disallowBlocks line path" by blast
    show ?L
    proof (cases pre)
      case Nil
      with r show ?thesis by simp
    next
      case (Cons p pre')
      with r have "ls = pre' @ line # rest" "currentAgent ?cur pre'"
        by (auto split: if_splits)
      with r(3,4) show ?thesis by blast
    qed
  qed
  finally show ?case .
qed

text \<open>
  Claim C8, amended: a user-agent token is applicable exactly when it is \<open>*\<close> or
  contains \<open>bot\<close> or \<open>spider\<close>, and the request is blocked exactly when some
  \<open>Disallow\<close> line matches the path while the last \<open>User-agent\<close> line before it is
  applicable: the rules of every applicable block apply, those of later blocks included.
\<close>

theorem robots_blocks_merged:
  "(agentApplicable agent \<longleftrightarrow>
      agent = ''*'' \<or> sublist ''bot'' agent \<or> sublist ''spider'' agent) \<and>
   (allowed (parseRobotsTxt content path) \<longleftrightarrow>
      \<not> (\<exists>pre line rest. robotsLines content = pre @ line # rest \<and>
            currentAgent False pre \<and> startsWith line ''disallow:'' \<and>
            disallowBlocks line path))"
  by (simp add: agentApplicable_def str_includes_sublist parseRobotsTxt_def Let_def
      robotsLoop_iff)

theorem robots_blocks_merged_witness:
  "robotsLines sample_robots
     = [''user-agent: *'', ''disallow: /a''] @ ''user-agent: googlebot'' # [''disallow: /b''] \<and>
   currentAgent False [''user-agent: *'', ''disallow: /a'', ''user-agent: googlebot''] \<and>
   startsWith ''disallow: /b'' ''disallow:'' \<and> disallowBlocks ''disallow: /b'' ''/b/x'' \<and>
   \<not> allowed (parseRobotsTxt sample_robots ''/b/x'')"
proof -
  have l: "robotsLines sample_robots
     = [''user-agent: *'', ''disallow: /a'', ''user-agent: googlebot''] @ ''disallow: /b'' # []"
    by code_simp
  have c: "currentAgent False [''user-agent: *'', ''disallow: /a'', ''user-agent: googlebot'']"
    by code_simp
  have s: "startsWith ''disallow: /b'' ''disallow:''" by code_simp
  have d: "disallowBlocks ''disallow: /b'' ''/b/x''" by code_simp
  from l c s d have "\<exists>pre line rest. robotsLines sample_robots = pre @ line # rest \<and>
            currentAgent False pre \<and> startsWith line ''disallow:'' \<and>
            disallowBlocks line ''/b/x''"
    by blast
  with robots_blocks_merged [of "''*''" sample_robots "''/b/x''"]
  have "\<not> allowed (parseRobotsTxt sample_robots ''/b/x'')" by blast
  with l c s d show ?thesis by simp
qed

end
